theory Spec2Isabelle
  imports Main "HOL-Library.Word"
begin

section \<open>Build and resolve orchestration of \<open>internal/build/imgsrc/resolver.go\<close>\<close>

subsection \<open>Errors\<close>

text \<open>
  A Go \<^verbatim>\<open>error\<close> is a value with a method \<^verbatim>\<open>Error() string\<close>. \<open>ErrorString\<close> stands for
  an error made by \<^verbatim>\<open>errors.New\<close> or \<^verbatim>\<open>fmt.Errorf\<close> and for any error of another package,
  known here by its text; \<open>HttpError\<close> is \<^verbatim>\<open>*httpError\<close> with its fields \<^verbatim>\<open>StatusCode\<close> and
  \<^verbatim>\<open>Body\<close>. A nil error is \<open>None\<close> of \<open>go_error option\<close>.
\<close>

datatype go_error = ErrorString string | HttpError int string

fun dec_nat :: "nat \<Rightarrow> string" where
  "dec_nat n = (if n < 10 then [char_of (48 + n)] else dec_nat (n div 10) @ [char_of (48 + n mod 10)])"

declare dec_nat.simps [simp del]

text \<open>The verb \<^verbatim>\<open>%d\<close> of \<^verbatim>\<open>fmt.Sprintf\<close> on an \<^verbatim>\<open>int\<close>.\<close>

definition fmt_d :: "int \<Rightarrow> string" where
  "fmt_d i = (if i < 0 then CHR ''-'' # dec_nat (nat (- i)) else dec_nat (nat i))"

text \<open>\<^verbatim>\<open>func (e httpError) Error() string { return fmt.Sprintf("%s (http: %d)", e.Body, e.StatusCode) }\<close>\<close>

fun ErrorText :: "go_error \<Rightarrow> string" where
  "ErrorText (ErrorString msg) = msg"
| "ErrorText (HttpError StatusCode Body) = Body @ '' (http: '' @ fmt_d StatusCode @ '')''"

text \<open>\<^verbatim>\<open>var h *httpError; errors.As(err, &h)\<close>: the \<^verbatim>\<open>*httpError\<close> in \<open>err\<close>, if it is one.\<close>

fun errors_As_httpError :: "go_error \<Rightarrow> (int \<times> string) option" where
  "errors_As_httpError (HttpError StatusCode Body) = Some (StatusCode, Body)"
| "errors_As_httpError (ErrorString msg) = None"

subsection \<open>Requests, images and the telemetry record\<close>

type_synonym int64 = "64 word"

text \<open>
  Fields of different Go structs share names (\<^verbatim>\<open>Tag\<close>, \<^verbatim>\<open>BuildId\<close>, ...); the fields of
  \<^verbatim>\<open>RefOptions\<close>, \<^verbatim>\<open>ImageOptions\<close> and \<^verbatim>\<open>DeploymentImage\<close> carry the receiver names of the
  source (\<open>ro\<close>, \<open>io\<close>, \<open>di\<close>) as prefix, those of the GraphQL inputs a prefix of their own.
\<close>

typedecl go_interface_value

record ImageOptions =
  io_AppName :: string
  io_WorkingDir :: string
  io_DockerfilePath :: string
  io_IgnorefilePath :: string
  io_ImageRef :: string
  io_BuildArgs :: "string \<rightharpoonup> string"
  io_ExtraBuildArgs :: "string \<rightharpoonup> string"
  io_BuildSecrets :: "string \<rightharpoonup> string"
  io_ImageLabel :: string
  io_Publish :: bool
  io_Tag :: string
  io_Target :: string
  io_NoCache :: bool
  io_BuiltIn :: string
  io_BuiltInSettings :: "string \<rightharpoonup> go_interface_value"
  io_Builder :: string
  io_Buildpacks :: "string list"
  io_Label :: "string \<rightharpoonup> string"
  io_BuildpacksDockerHost :: string
  io_BuildpacksVolumes :: "string list"

record RefOptions =
  ro_AppName :: string
  ro_WorkingDir :: string
  ro_ImageRef :: string
  ro_ImageLabel :: string
  ro_Publish :: bool
  ro_Tag :: string

record DeploymentImage =
  di_ID :: string
  di_Tag :: string
  di_Size :: int64
  di_Labels :: "string \<rightharpoonup> string"

text \<open>
  The GraphQL input types of package \<^verbatim>\<open>gql\<close>, with the fields the source sets. A field the
  source leaves out of a struct literal has Go's zero value.
\<close>

record BuildImageOptsInput =
  bi_BuildArgs :: "string \<rightharpoonup> string"
  bi_BuildPacks :: "string list"
  bi_Builder :: string
  bi_BuiltIn :: string
  bi_BuiltInSettings :: "string \<rightharpoonup> go_interface_value"
  bi_DockerfilePath :: string
  bi_ExtraBuildArgs :: "string \<rightharpoonup> string"
  bi_ImageLabel :: string
  bi_ImageRef :: string
  bi_NoCache :: bool
  bi_Publish :: bool
  bi_Tag :: string
  bi_Target :: string

record CreateBuildInput =
  cb_AppName :: string
  cb_BuilderType :: string
  cb_ImageOpts :: BuildImageOptsInput
  cb_MachineId :: string
  cb_StrategiesAvailable :: "string list"

record BuilderMetaInput =
  BuilderType :: string
  RemoteAppName :: string
  RemoteMachineId :: string
  BuildkitEnabled :: bool
  DockerVersion :: string
  Platform :: string

record BuildTimingsInput =
  BuildAndPushMs :: int64
  BuilderInitMs :: int64
  BuildMs :: int64
  ContextBuildMs :: int64
  ImageBuildMs :: int64
  PushMs :: int64

record BuildStrategyAttemptInput =
  Strategy :: string
  Result :: string
  Error :: string
  Note :: string

record BuildFinalImageInput =
  fi_Id :: string
  fi_Tag :: string
  fi_SizeBytes :: int64

record FinishBuildInput =
  fb_BuildId :: string
  fb_AppName :: string
  fb_MachineId :: string
  fb_Status :: string
  fb_Logs :: string
  fb_BuilderMeta :: BuilderMetaInput
  fb_StrategiesAttempted :: "BuildStrategyAttemptInput list"
  fb_Timings :: BuildTimingsInput
  fb_FinalImage :: BuildFinalImageInput

record buildResult =
  br_BuildId :: string
  br_Status :: string
  br_wallclockTimeMs :: int

record build =
  CreateApiFailed :: bool
  BuildId :: string
  BuilderMeta :: BuilderMetaInput
  StrategyResults :: "BuildStrategyAttemptInput list"
  Timings :: BuildTimingsInput
  StartTimes :: BuildTimingsInput

text \<open>Go's zero values of the structs that the source creates empty.\<close>

definition zero_BuilderMetaInput :: BuilderMetaInput where
  "zero_BuilderMetaInput =
    \<lparr>BuilderType = [], RemoteAppName = [], RemoteMachineId = [], BuildkitEnabled = False,
     DockerVersion = [], Platform = []\<rparr>"

definition zero_BuildTimingsInput :: BuildTimingsInput where
  "zero_BuildTimingsInput =
    \<lparr>BuildAndPushMs = 0, BuilderInitMs = 0, BuildMs = 0, ContextBuildMs = 0,
     ImageBuildMs = 0, PushMs = 0\<rparr>"

definition zero_BuildFinalImageInput :: BuildFinalImageInput where
  "zero_BuildFinalImageInput = \<lparr>fi_Id = [], fi_Tag = [], fi_SizeBytes = 0\<rparr>"

definition unmeasured_Timings :: BuildTimingsInput where
  "unmeasured_Timings =
    \<lparr>BuildAndPushMs = - 1, BuilderInitMs = - 1, BuildMs = - 1, ContextBuildMs = - 1,
     ImageBuildMs = - 1, PushMs = - 1\<rparr>"

definition newBuild :: "string \<Rightarrow> bool \<Rightarrow> build" where
  "newBuild buildId createApiFailed =
    \<lparr>CreateApiFailed = createApiFailed,
     BuildId = buildId,
     BuilderMeta = zero_BuilderMetaInput,
     StrategyResults = [],
     Timings = unmeasured_Timings,
     StartTimes = zero_BuildTimingsInput\<rparr>"

definition newFailedBuild :: build where
  "newFailedBuild = newBuild [] True"

subsection \<open>Log truncation\<close>


text \<open>
  \<^verbatim>\<open>const logLimit int = 4096\<close>: stored logs are limited to 4KB. A Go string is a
  sequence of bytes and \<^verbatim>\<open>len\<close> counts bytes, as \<open>length\<close> does on a \<open>string\<close>.
\<close>

definition logLimit :: nat where
  "logLimit = 4096"

text \<open>
  \<^verbatim>\<open>if len(log) > logLimit { return log[len(log)-logLimit:] }; return log\<close>
\<close>

definition limitLogs :: "string \<Rightarrow> string" where
  "limitLogs log = (if length log > logLimit then drop (length log - logLimit) log else log)"

subsection \<open>What a strategy returns, and the world of a session\<close>

text \<open>
  A strategy's \<^verbatim>\<open>Run\<close> returns \<^verbatim>\<open>(*DeploymentImage, string, error)\<close>. It is handed the
  \<^verbatim>\<open>*build\<close> of the session; the strategy implementations are not among the sources, and
  they act on the record through its metadata and timing methods, in some order
  (\<open>rr_calls\<close>).

  \<^verbatim>\<open>time.Now().UnixMilli()\<close> reads the wall clock. The \<open>world\<close> holds the readings the
  clock will give, one after the other, and what the session does that is visible from
  outside: the \<^verbatim>\<open>Run\<close> calls made (with the strategy's name and what the call returned),
  the mutations sent to the build-tracking service, and the calls of \<^verbatim>\<open>finishBuild\<close> with
  their arguments.
\<close>

datatype build_call =
    Call_SetBuilderMetaPart1 bool string string
  | Call_SetBuilderMetaPart2 bool string string
  | Call_ResetTimings
  | Call_BuildAndPushStart | Call_BuildAndPushFinish
  | Call_BuilderInitStart | Call_BuilderInitFinish
  | Call_BuildStart | Call_BuildFinish
  | Call_ContextBuildStart | Call_ContextBuildFinish
  | Call_ImageBuildStart | Call_ImageBuildFinish
  | Call_PushStart | Call_PushFinish

record run_result =
  rr_img :: "DeploymentImage option"
  rr_note :: string
  rr_err :: "go_error option"
  rr_calls :: "build_call list"

record world =
  clock :: "nat \<Rightarrow> int64"
  ticks :: nat
  run_log :: "(string \<times> run_result) list"
  create_requests :: "CreateBuildInput list"
  finish_log :: "(build \<times> bool \<times> string \<times> DeploymentImage option) list"
  finish_requests :: "FinishBuildInput list"

definition UnixMilli_Now :: "world \<Rightarrow> int64 \<times> world" where
  "UnixMilli_Now w = (clock w (ticks w), w\<lparr>ticks := Suc (ticks w)\<rparr>)"

subsection \<open>Methods of the telemetry record\<close>

text \<open>
  \<^verbatim>\<open>b\<close> is a \<^verbatim>\<open>*build\<close>; a method that updates it returns the updated record. The
  orchestrator never holds a nil \<^verbatim>\<open>*build\<close> (\<^verbatim>\<open>newBuild\<close> and \<^verbatim>\<open>newFailedBuild\<close> allocate), so
  the nil check of \<^verbatim>\<open>SetBuilderMetaPart1\<close> is not a branch here.
\<close>

definition SetBuilderMetaPart1 :: "bool \<Rightarrow> string \<Rightarrow> string \<Rightarrow> build \<Rightarrow> build" where
  "SetBuilderMetaPart1 is_remote remoteAppName remoteMachineId b =
    (let builderType = (if \<not> is_remote then ''local'' else ''remote'')
     in b\<lparr>BuilderMeta := (BuilderMeta b)\<lparr>BuilderType := builderType,
                                            RemoteAppName := remoteAppName,
                                            RemoteMachineId := remoteMachineId\<rparr>\<rparr>)"

definition SetBuilderMetaPart2 :: "bool \<Rightarrow> string \<Rightarrow> string \<Rightarrow> build \<Rightarrow> build" where
  "SetBuilderMetaPart2 buildkitEnabled dockerVersion platform b =
    b\<lparr>BuilderMeta := (BuilderMeta b)\<lparr>BuildkitEnabled := buildkitEnabled,
                                       DockerVersion := dockerVersion,
                                       Platform := platform\<rparr>\<rparr>"

definition ResetTimings :: "build \<Rightarrow> build" where
  "ResetTimings b = b\<lparr>StartTimes := zero_BuildTimingsInput, Timings := unmeasured_Timings\<rparr>"

definition BuildAndPushStart :: "build \<Rightarrow> world \<Rightarrow> build \<times> world" where
  "BuildAndPushStart b w =
    (case UnixMilli_Now w of (t, w') \<Rightarrow>
       (b\<lparr>StartTimes := (StartTimes b)\<lparr>BuildAndPushMs := t\<rparr>\<rparr>, w'))"

definition BuildAndPushFinish :: "build \<Rightarrow> world \<Rightarrow> build \<times> world" where
  "BuildAndPushFinish b w =
    (case UnixMilli_Now w of (t, w') \<Rightarrow>
       (b\<lparr>Timings := (Timings b)\<lparr>BuildAndPushMs := t - BuildAndPushMs (StartTimes b)\<rparr>\<rparr>, w'))"

definition BuilderInitStart :: "build \<Rightarrow> world \<Rightarrow> build \<times> world" where
  "BuilderInitStart b w =
    (case UnixMilli_Now w of (t, w') \<Rightarrow>
       (b\<lparr>StartTimes := (StartTimes b)\<lparr>BuilderInitMs := t\<rparr>\<rparr>, w'))"

definition BuilderInitFinish :: "build \<Rightarrow> world \<Rightarrow> build \<times> world" where
  "BuilderInitFinish b w =
    (case UnixMilli_Now w of (t, w') \<Rightarrow>
       (b\<lparr>Timings := (Timings b)\<lparr>BuilderInitMs := t - BuilderInitMs (StartTimes b)\<rparr>\<rparr>, w'))"

definition BuildStart :: "build \<Rightarrow> world \<Rightarrow> build \<times> world" where
  "BuildStart b w =
    (case UnixMilli_Now w of (t, w') \<Rightarrow>
       (b\<lparr>StartTimes := (StartTimes b)\<lparr>BuildMs := t\<rparr>\<rparr>, w'))"

definition BuildFinish :: "build \<Rightarrow> world \<Rightarrow> build \<times> world" where
  "BuildFinish b w =
    (case UnixMilli_Now w of (t, w') \<Rightarrow>
       (b\<lparr>Timings := (Timings b)\<lparr>BuildMs := t - BuildMs (StartTimes b)\<rparr>\<rparr>, w'))"

definition ContextBuildStart :: "build \<Rightarrow> world \<Rightarrow> build \<times> world" where
  "ContextBuildStart b w =
    (case UnixMilli_Now w of (t, w') \<Rightarrow>
       (b\<lparr>StartTimes := (StartTimes b)\<lparr>ContextBuildMs := t\<rparr>\<rparr>, w'))"

definition ContextBuildFinish :: "build \<Rightarrow> world \<Rightarrow> build \<times> world" where
  "ContextBuildFinish b w =
    (case UnixMilli_Now w of (t, w') \<Rightarrow>
       (b\<lparr>Timings := (Timings b)\<lparr>ContextBuildMs := t - ContextBuildMs (StartTimes b)\<rparr>\<rparr>, w'))"

definition ImageBuildStart :: "build \<Rightarrow> world \<Rightarrow> build \<times> world" where
  "ImageBuildStart b w =
    (case UnixMilli_Now w of (t, w') \<Rightarrow>
       (b\<lparr>StartTimes := (StartTimes b)\<lparr>ImageBuildMs := t\<rparr>\<rparr>, w'))"

definition ImageBuildFinish :: "build \<Rightarrow> world \<Rightarrow> build \<times> world" where
  "ImageBuildFinish b w =
    (case UnixMilli_Now w of (t, w') \<Rightarrow>
       (b\<lparr>Timings := (Timings b)\<lparr>ImageBuildMs := t - ImageBuildMs (StartTimes b)\<rparr>\<rparr>, w'))"

definition PushStart :: "build \<Rightarrow> world \<Rightarrow> build \<times> world" where
  "PushStart b w =
    (case UnixMilli_Now w of (t, w') \<Rightarrow>
       (b\<lparr>StartTimes := (StartTimes b)\<lparr>PushMs := t\<rparr>\<rparr>, w'))"

definition PushFinish :: "build \<Rightarrow> world \<Rightarrow> build \<times> world" where
  "PushFinish b w =
    (case UnixMilli_Now w of (t, w') \<Rightarrow>
       (b\<lparr>Timings := (Timings b)\<lparr>PushMs := t - PushMs (StartTimes b)\<rparr>\<rparr>, w'))"

definition finishStrategyCommon ::
  "string \<Rightarrow> bool \<Rightarrow> go_error option \<Rightarrow> string \<Rightarrow> build \<Rightarrow> build" where
  "finishStrategyCommon strategy failed err note b =
    (let result = (if \<not> failed then ''success'' else ''failed'');
         errMsg = (case err of Some e \<Rightarrow> ErrorText e | None \<Rightarrow> []);
         r = \<lparr>Strategy = strategy, Result = result, Error = limitLogs errMsg,
              Note = limitLogs note\<rparr>
     in b\<lparr>StrategyResults := StrategyResults b @ [r]\<rparr>)"

subsection \<open>HTTP and the docker client, as the heartbeat uses them\<close>

text \<open>
  Packages \<^verbatim>\<open>net/http\<close> and \<^verbatim>\<open>dockerclient\<close> are libraries. A request has what the source sets
  on it; a response has its status and what \<^verbatim>\<open>io.ReadAll(resp.Body)\<close> returns. The answer of
  \<^verbatim>\<open>client.HTTPClient().Do(req)\<close> belongs to the client: \<open>HTTPClient_Do c n req\<close> is the answer
  to \<open>req\<close> when \<open>n\<close> requests have been sent before.
\<close>

record http_Request =
  rq_Method :: string
  rq_URL :: string
  rq_BasicAuth :: "(string \<times> string) option"
  rq_UserAgent :: string

record http_Response =
  rs_StatusCode :: int
  rs_Status :: string
  rs_Body :: "go_error + string"

record dockerclient_Client =
  DaemonHost :: string
  HTTPClient_Do :: "nat \<Rightarrow> http_Request \<Rightarrow> go_error + http_Response"

subsection \<open>Strategies and the collaborators outside the sources\<close>

text \<open>
  \<^verbatim>\<open>DockerDaemonType\<close> and \<^verbatim>\<open>dockerClientFactory\<close> are declared elsewhere; the record has what
  the source reads: the results of \<^verbatim>\<open>mode.IsAvailable()\<close> and \<^verbatim>\<open>mode.UseNixpacks()\<close>, the
  fields \<^verbatim>\<open>remote\<close> and \<^verbatim>\<open>appName\<close>, and what \<^verbatim>\<open>buildFn(ctx, nil)\<close> returns.
\<close>

record DockerDaemonType =
  IsAvailable :: bool
  UseNixpacks :: bool

record dockerClientFactory =
  mode :: DockerDaemonType
  remote :: bool
  appName :: string
  buildFn :: "go_error + dockerclient_Client"

record Resolver =
  dockerFactory :: dockerClientFactory

text \<open>
  The interfaces \<^verbatim>\<open>imageBuilder\<close> and \<^verbatim>\<open>imageResolver\<close>: \<^verbatim>\<open>Name()\<close> and \<^verbatim>\<open>Run\<close>, the latter on
  \<^verbatim>\<open>ImageOptions\<close> or on \<^verbatim>\<open>RefOptions\<close>.
\<close>

record 'o strategy =
  Name :: string
  Run :: "dockerClientFactory \<Rightarrow> 'o \<Rightarrow> run_result"

type_synonym imageBuilder = "ImageOptions strategy"
type_synonym imageResolver = "RefOptions strategy"

text \<open>
  What the session uses and the sources do not define: the six strategy implementations,
  \<^verbatim>\<open>NewDeploymentTag\<close>, the two GraphQL mutations (each answers with an error or with the
  fields the source reads from the response), and the verb \<^verbatim>\<open>%q\<close> of package \<^verbatim>\<open>fmt\<close>.
\<close>

record env =
  localImageResolver :: imageResolver
  remoteImageResolver :: imageResolver
  nixpacksBuilder :: imageBuilder
  buildpacksBuilder :: imageBuilder
  dockerfileBuilder :: imageBuilder
  builtinBuilder :: imageBuilder
  NewDeploymentTag :: "string \<Rightarrow> string \<Rightarrow> string"
  ResolverCreateBuild :: "CreateBuildInput \<Rightarrow> go_error + string"
  ResolverFinishBuild :: "FinishBuildInput \<Rightarrow> go_error + string \<times> string \<times> int"
  fmt_q :: "string \<Rightarrow> string"

fun exec_call :: "build_call \<Rightarrow> build \<Rightarrow> world \<Rightarrow> build \<times> world" where
  "exec_call (Call_SetBuilderMetaPart1 is_remote remoteAppName remoteMachineId) b w =
     (SetBuilderMetaPart1 is_remote remoteAppName remoteMachineId b, w)"
| "exec_call (Call_SetBuilderMetaPart2 buildkitEnabled dockerVersion platform) b w =
     (SetBuilderMetaPart2 buildkitEnabled dockerVersion platform b, w)"
| "exec_call Call_ResetTimings b w = (ResetTimings b, w)"
| "exec_call Call_BuildAndPushStart b w = BuildAndPushStart b w"
| "exec_call Call_BuildAndPushFinish b w = BuildAndPushFinish b w"
| "exec_call Call_BuilderInitStart b w = BuilderInitStart b w"
| "exec_call Call_BuilderInitFinish b w = BuilderInitFinish b w"
| "exec_call Call_BuildStart b w = BuildStart b w"
| "exec_call Call_BuildFinish b w = BuildFinish b w"
| "exec_call Call_ContextBuildStart b w = ContextBuildStart b w"
| "exec_call Call_ContextBuildFinish b w = ContextBuildFinish b w"
| "exec_call Call_ImageBuildStart b w = ImageBuildStart b w"
| "exec_call Call_ImageBuildFinish b w = ImageBuildFinish b w"
| "exec_call Call_PushStart b w = PushStart b w"
| "exec_call Call_PushFinish b w = PushFinish b w"

fun exec_calls :: "build_call list \<Rightarrow> build \<Rightarrow> world \<Rightarrow> build \<times> world" where
  "exec_calls [] b w = (b, w)"
| "exec_calls (c # cs) b w = (case exec_call c b w of (b', w') \<Rightarrow> exec_calls cs b' w')"

text \<open>
  \<^verbatim>\<open>img, note, err = s.Run(ctx, r.dockerFactory, streams, opts, bld)\<close>: the call is entered
  in \<open>run_log\<close> with what it returned.
\<close>

definition invoke_Run ::
  "'o strategy \<Rightarrow> dockerClientFactory \<Rightarrow> 'o \<Rightarrow> build \<Rightarrow> world \<Rightarrow> run_result \<times> build \<times> world" where
  "invoke_Run s df opts bld w =
    (let res = Run s df opts
     in case exec_calls (rr_calls res) bld w of (bld', w') \<Rightarrow>
          (res, bld', w'\<lparr>run_log := run_log w' @ [(Name s, res)]\<rparr>))"

definition FinishStrategy ::
  "imageBuilder \<Rightarrow> bool \<Rightarrow> go_error option \<Rightarrow> string \<Rightarrow> build \<Rightarrow> build" where
  "FinishStrategy strategy failed err note b = finishStrategyCommon (Name strategy) failed err note b"

definition FinishImageStrategy ::
  "imageResolver \<Rightarrow> bool \<Rightarrow> go_error option \<Rightarrow> string \<Rightarrow> build \<Rightarrow> build" where
  "FinishImageStrategy strategy failed err note b =
     finishStrategyCommon (Name strategy) failed err note b"

subsection \<open>Opening and finalizing the remote record\<close>

definition createBuildGql ::
  "env \<Rightarrow> Resolver \<Rightarrow> string list \<Rightarrow> BuildImageOptsInput \<Rightarrow> world
    \<Rightarrow> (build \<times> go_error option) \<times> world" where
  "createBuildGql e r strategiesAvailable imageOpts w =
    (let builderType = (if remote (dockerFactory r) then ''remote'' else ''local'');
         input = \<lparr>cb_AppName = appName (dockerFactory r),
                  cb_BuilderType = builderType,
                  cb_ImageOpts = imageOpts,
                  cb_MachineId = [],
                  cb_StrategiesAvailable = strategiesAvailable\<rparr>;
         w' = w\<lparr>create_requests := create_requests w @ [input]\<rparr>
     in case ResolverCreateBuild e input of
          Inl err \<Rightarrow> ((newFailedBuild, Some err), w')
        | Inr resp_Id \<Rightarrow> ((newBuild resp_Id False, None), w'))"

definition createImageBuild ::
  "env \<Rightarrow> Resolver \<Rightarrow> imageResolver list \<Rightarrow> RefOptions \<Rightarrow> world
    \<Rightarrow> (build \<times> go_error option) \<times> world" where
  "createImageBuild e r strategies opts w =
    (let strategiesAvailable = map Name strategies;
         imageOps = \<lparr>bi_BuildArgs = Map.empty, bi_BuildPacks = [], bi_Builder = [],
                     bi_BuiltIn = [], bi_BuiltInSettings = Map.empty, bi_DockerfilePath = [],
                     bi_ExtraBuildArgs = Map.empty,
                     bi_ImageLabel = ro_ImageLabel opts,
                     bi_ImageRef = ro_ImageRef opts,
                     bi_NoCache = False,
                     bi_Publish = ro_Publish opts,
                     bi_Tag = ro_Tag opts,
                     bi_Target = []\<rparr>
     in createBuildGql e r strategiesAvailable imageOps w)"

definition createBuild ::
  "env \<Rightarrow> Resolver \<Rightarrow> imageBuilder list \<Rightarrow> ImageOptions \<Rightarrow> world
    \<Rightarrow> (build \<times> go_error option) \<times> world" where
  "createBuild e r strategies opts w =
    (let strategiesAvailable = map Name strategies;
         imageOpts = \<lparr>bi_BuildArgs = io_BuildArgs opts,
                      bi_BuildPacks = io_Buildpacks opts,
                      bi_Builder = io_Builder opts,
                      bi_BuiltIn = io_BuiltIn opts,
                      bi_BuiltInSettings = io_BuiltInSettings opts,
                      bi_DockerfilePath = io_DockerfilePath opts,
                      bi_ExtraBuildArgs = io_ExtraBuildArgs opts,
                      bi_ImageLabel = io_ImageLabel opts,
                      bi_ImageRef = io_ImageRef opts,
                      bi_NoCache = io_NoCache opts,
                      bi_Publish = io_Publish opts,
                      bi_Tag = io_Tag opts,
                      bi_Target = io_Target opts\<rparr>
     in createBuildGql e r strategiesAvailable imageOpts w)"

text \<open>
  \<^verbatim>\<open>finishBuild\<close> returns \<^verbatim>\<open>(nil, nil)\<close> without a remote call when \<^verbatim>\<open>CreateBuild\<close> had
  failed. Every call is entered in \<open>finish_log\<close> with its arguments, every mutation sent in
  \<open>finish_requests\<close>.
\<close>

definition finishBuild ::
  "env \<Rightarrow> Resolver \<Rightarrow> build \<Rightarrow> bool \<Rightarrow> string \<Rightarrow> DeploymentImage option \<Rightarrow> world
    \<Rightarrow> (buildResult option \<times> go_error option) \<times> world" where
  "finishBuild e r bld failed logs img w0 =
    (let w = w0\<lparr>finish_log := finish_log w0 @ [(bld, failed, logs, img)]\<rparr>
     in if CreateApiFailed bld then ((None, None), w)
        else
          (let status = (if \<not> failed then ''completed'' else ''failed'');
               input = \<lparr>fb_BuildId = BuildId bld,
                        fb_AppName = appName (dockerFactory r),
                        fb_MachineId = [],
                        fb_Status = status,
                        fb_Logs = limitLogs logs,
                        fb_BuilderMeta = BuilderMeta bld,
                        fb_StrategiesAttempted = StrategyResults bld,
                        fb_Timings = Timings bld,
                        fb_FinalImage = zero_BuildFinalImageInput\<rparr>;
               input = (case img of
                          Some i \<Rightarrow> input\<lparr>fb_FinalImage :=
                                      \<lparr>fi_Id = di_ID i, fi_Tag = di_Tag i, fi_SizeBytes = di_Size i\<rparr>\<rparr>
                        | None \<Rightarrow> input);
               w = w\<lparr>finish_requests := finish_requests w @ [input]\<rparr>
           in case ResolverFinishBuild e input of
                Inl err \<Rightarrow> ((None, Some err), w)
              | Inr (resp_Id, resp_Status, resp_WallclockTimeMs) \<Rightarrow>
                  ((Some \<lparr>br_BuildId = resp_Id, br_Status = resp_Status,
                          br_wallclockTimeMs = resp_WallclockTimeMs\<rparr>, None), w)))"

subsection \<open>The orchestrator\<close>

text \<open>
  The \<^verbatim>\<open>for _, s := range strategies\<close> loop of \<^verbatim>\<open>ResolveReference\<close>. \<open>Some (img, err)\<close> is a
  \<^verbatim>\<open>return img, err\<close> from inside the loop, \<open>None\<close> is the loop running to its end.
\<close>

fun ResolveReference_loop ::
  "env \<Rightarrow> Resolver \<Rightarrow> RefOptions \<Rightarrow> imageResolver list \<Rightarrow> build \<Rightarrow> world
    \<Rightarrow> (DeploymentImage option \<times> go_error option) option \<times> build \<times> world" where
  "ResolveReference_loop e r opts [] bld w = (None, bld, w)"
| "ResolveReference_loop e r opts (s # ss) bld w =
    (case BuildAndPushStart (ResetTimings bld) w of (bld1, w1) \<Rightarrow>
     case invoke_Run s (dockerFactory r) opts bld1 w1 of (res, bld2, w2) \<Rightarrow>
     case rr_err res of
       Some err \<Rightarrow>
         (case BuildAndPushFinish bld2 w2 of (bld3, w3) \<Rightarrow>
          let bld4 = FinishImageStrategy s True (Some err) (rr_note res) bld3
          in case finishBuild e r bld4 True (ErrorText err) None w3 of (_, w4) \<Rightarrow>
               (Some (None, Some err), bld4, w4))
     | None \<Rightarrow>
         (case rr_img res of
            Some img \<Rightarrow>
              (case BuildAndPushFinish bld2 w2 of (bld3, w3) \<Rightarrow>
               let bld4 = FinishImageStrategy s False None (rr_note res) bld3
               in case finishBuild e r bld4 False [] (Some img) w3 of (_, w4) \<Rightarrow>
                    (Some (Some img, None), bld4, w4))
          | None \<Rightarrow>
              (case BuildAndPushFinish bld2 w2 of (bld3, w3) \<Rightarrow>
               let bld4 = FinishImageStrategy s True None (rr_note res) bld3
               in ResolveReference_loop e r opts ss bld4 w3)))"

definition ResolveReference ::
  "env \<Rightarrow> Resolver \<Rightarrow> RefOptions \<Rightarrow> world
    \<Rightarrow> (DeploymentImage option \<times> go_error option) \<times> world" where
  "ResolveReference e r opts w =
    (let strategies = [localImageResolver e, remoteImageResolver e]
     in case createImageBuild e r strategies opts w of ((bld, create_err), w1) \<Rightarrow>
        case ResolveReference_loop e r opts strategies bld w1 of
          (Some ret, bld', w2) \<Rightarrow> (ret, w2)
        | (None, bld', w2) \<Rightarrow>
            (case finishBuild e r bld' True ''no strategies resulted in an image'' None w2 of
               (_, w3) \<Rightarrow>
                 ((None, Some (ErrorString (''could not find image '' @ fmt_q e (ro_ImageRef opts)))),
                  w3)))"

text \<open>The loop of \<^verbatim>\<open>BuildImage\<close>.\<close>

fun BuildImage_loop ::
  "env \<Rightarrow> Resolver \<Rightarrow> ImageOptions \<Rightarrow> imageBuilder list \<Rightarrow> build \<Rightarrow> world
    \<Rightarrow> (DeploymentImage option \<times> go_error option) option \<times> build \<times> world" where
  "BuildImage_loop e r opts [] bld w = (None, bld, w)"
| "BuildImage_loop e r opts (s # ss) bld w =
    (case BuildAndPushStart (ResetTimings bld) w of (bld1, w1) \<Rightarrow>
     case invoke_Run s (dockerFactory r) opts bld1 w1 of (res, bld2, w2) \<Rightarrow>
     case rr_err res of
       Some err \<Rightarrow>
         (case BuildAndPushFinish bld2 w2 of (bld3, w3) \<Rightarrow>
          let bld4 = FinishStrategy s True (Some err) (rr_note res) bld3
          in case finishBuild e r bld4 True (ErrorText err) None w3 of (_, w4) \<Rightarrow>
               (Some (None, Some err), bld4, w4))
     | None \<Rightarrow>
         (case rr_img res of
            Some img \<Rightarrow>
              (case BuildAndPushFinish bld2 w2 of (bld3, w3) \<Rightarrow>
               let bld4 = FinishStrategy s False None (rr_note res) bld3
               in case finishBuild e r bld4 False [] (Some img) w3 of (_, w4) \<Rightarrow>
                    (Some (Some img, None), bld4, w4))
          | None \<Rightarrow>
              (case BuildAndPushFinish bld2 w2 of (bld3, w3) \<Rightarrow>
               let bld4 = FinishStrategy s True None (rr_note res) bld3
               in BuildImage_loop e r opts ss bld4 w3)))"

definition BuildImage ::
  "env \<Rightarrow> Resolver \<Rightarrow> ImageOptions \<Rightarrow> world
    \<Rightarrow> (DeploymentImage option \<times> go_error option) \<times> world" where
  "BuildImage e r opts0 w =
    (if \<not> IsAvailable (mode (dockerFactory r))
     then ((None, Some (ErrorString ''docker is unavailable to build the deployment image'')), w)
     else
      (let opts = (if io_Tag opts0 = []
                   then opts0\<lparr>io_Tag := NewDeploymentTag e (io_AppName opts0) (io_ImageLabel opts0)\<rparr>
                   else opts0);
           strategies = (if UseNixpacks (mode (dockerFactory r))
                         then [] @ [nixpacksBuilder e]
                         else [buildpacksBuilder e, dockerfileBuilder e, builtinBuilder e])
       in case createBuild e r strategies opts w of ((bld, create_err), w1) \<Rightarrow>
          case BuildImage_loop e r opts strategies bld w1 of
            (Some ret, bld', w2) \<Rightarrow> (ret, w2)
          | (None, bld', w2) \<Rightarrow>
              (case finishBuild e r bld' True ''no strategies resulted in an image'' None w2 of
                 (_, w3) \<Rightarrow>
                   ((None, Some (ErrorString
                      ''app does not have a Dockerfile or buildpacks configured. See https://fly.io/docs/reference/configuration/#the-build-section'')),
                    w3))))"

subsection \<open>The stop signal\<close>

text \<open>
  \<^verbatim>\<open>type StopSignal struct { Chan chan struct{}; once sync.Once }\<close>. Nothing is ever sent
  on the channel: it is open or closed, and closing a closed channel panics. A
  \<^verbatim>\<open>sync.Once\<close> is a flag and a mutex (\<open>once_m\<close> is the thread that holds it).
\<close>

datatype chan = Open | Closed

datatype go_panic = Panic string

record sync_Once =
  once_done :: bool
  once_m :: "nat option"

record StopSignal =
  Chan :: chan
  once :: sync_Once

definition zero_Once :: sync_Once where
  "zero_Once = \<lparr>once_done = False, once_m = None\<rparr>"

definition close_chan :: "chan \<Rightarrow> go_panic + chan" where
  "close_chan c = (case c of Open \<Rightarrow> Inr Closed | Closed \<Rightarrow> Inl (Panic ''close of closed channel''))"

text \<open>\<^verbatim>\<open>s.once.Do(func() { close(s.Chan) })\<close>, run by one thread without interference.\<close>

definition once_Do_close :: "StopSignal \<Rightarrow> go_panic + StopSignal" where
  "once_Do_close s =
    (if once_done (once s) then Inr s
     else case close_chan (Chan s) of
            Inl p \<Rightarrow> Inl p
          | Inr c \<Rightarrow> Inr (s\<lparr>Chan := c, once := (once s)\<lparr>once_done := True\<rparr>\<rparr>))"

subsection \<open>The heartbeat\<close>

text \<open>
  What \<^verbatim>\<open>StartHeartbeat\<close> uses from libraries and from other packages: \<^verbatim>\<open>url.Parse\<close>,
  \<^verbatim>\<open>net.SplitHostPort\<close>, \<^verbatim>\<open>(*url.URL).String\<close>, \<^verbatim>\<open>http.NewRequestWithContext\<close>, the docker token
  of \<^verbatim>\<open>config.Tokens(ctx)\<close> and the version string of \<^verbatim>\<open>buildinfo\<close>. A \<^verbatim>\<open>url.URL\<close> has the three
  fields the source assigns.
\<close>

record URL =
  Scheme :: string
  Host :: string
  Path :: string

record heartbeat_env =
  url_Parse :: "string \<Rightarrow> go_error + URL"
  net_SplitHostPort :: "string \<Rightarrow> string \<times> string \<times> go_error option"
  URL_String :: "URL \<Rightarrow> string"
  http_NewRequestWithContext :: "string \<Rightarrow> string \<Rightarrow> go_error + http_Request"
  Tokens_Docker :: string
  Version_String :: string

text \<open>
  What the heartbeat does to the world: the requests sent, the \<^verbatim>\<open>StopSignal\<close> values
  allocated (a \<^verbatim>\<open>*StopSignal\<close> is an index into \<open>signals\<close>, \<open>None\<close> is nil), the timers set by
  \<^verbatim>\<open>time.AfterFunc\<close> (duration in nanoseconds, and the signal whose \<^verbatim>\<open>Stop\<close> the timer calls)
  and the background loops started by the \<^verbatim>\<open>go\<close> statement (the signal they watch, their
  pulse interval and the request they repeat).
\<close>

record heartbeat_world =
  sent :: "http_Request list"
  signals :: "StopSignal list"
  timers :: "(int \<times> nat) list"
  loops :: "(nat \<times> int \<times> http_Request) list"

definition time_Second :: int where
  "time_Second = 1000000000"

definition time_Hour :: int where
  "time_Hour = 3600 * time_Second"

definition http_StatusNotFound :: int where
  "http_StatusNotFound = 404"

definition http_StatusAccepted :: int where
  "http_StatusAccepted = 202"

definition client_Do ::
  "dockerclient_Client \<Rightarrow> http_Request \<Rightarrow> heartbeat_world
    \<Rightarrow> (go_error + http_Response) \<times> heartbeat_world" where
  "client_Do client req st =
     (HTTPClient_Do client (length (sent st)) req, st\<lparr>sent := sent st @ [req]\<rparr>)"

definition heartbeat ::
  "dockerclient_Client \<Rightarrow> http_Request \<Rightarrow> heartbeat_world \<Rightarrow> go_error option \<times> heartbeat_world" where
  "heartbeat client req st =
    (case client_Do client req st of
       (Inl err, st') \<Rightarrow> (Some err, st')
     | (Inr resp, st') \<Rightarrow>
         if 200 \<le> rs_StatusCode resp \<and> rs_StatusCode resp < 300 then (None, st')
         else (case rs_Body resp of
                 Inl err \<Rightarrow> (Some (HttpError (rs_StatusCode resp) (ErrorText err)), st')
               | Inr b \<Rightarrow> (Some (HttpError (rs_StatusCode resp) b), st')))"

definition getHeartbeatUrl :: "heartbeat_env \<Rightarrow> dockerclient_Client \<Rightarrow> string \<times> go_error option" where
  "getHeartbeatUrl h dockerClient =
    (let daemonHost = DaemonHost dockerClient
     in case url_Parse h daemonHost of
          Inl err \<Rightarrow> ([], Some err)
        | Inr parsed \<Rightarrow>
            (let hostPort = Host parsed;
                 host = fst (net_SplitHostPort h hostPort);
                 parsed = parsed\<lparr>Host := host @ '':8080''\<rparr>;
                 parsed = parsed\<lparr>Scheme := ''http''\<rparr>;
                 parsed = parsed\<lparr>Path := ''/flyio/v1/extendDeadline''\<rparr>
             in (URL_String h parsed, None)))"

text \<open>
  \<^verbatim>\<open>StartHeartbeat\<close> returns \<^verbatim>\<open>(*StopSignal, error)\<close>. On its last path it allocates the
  signal, sets the timer and starts the loop.
\<close>

definition StartHeartbeat ::
  "heartbeat_env \<Rightarrow> Resolver \<Rightarrow> heartbeat_world
    \<Rightarrow> (nat option \<times> go_error option) \<times> heartbeat_world" where
  "StartHeartbeat h r st =
    (if \<not> remote (dockerFactory r) then ((None, None), st)
     else
      case buildFn (dockerFactory r) of
        Inl err \<Rightarrow> ((None, None), st)
      | Inr dockerClient \<Rightarrow>
         (case getHeartbeatUrl h dockerClient of
            (heartbeatUrl, Some err) \<Rightarrow> ((None, None), st)
          | (heartbeatUrl, None) \<Rightarrow>
             (case http_NewRequestWithContext h ''GET'' heartbeatUrl of
                Inl err \<Rightarrow> ((None, None), st)
              | Inr req0 \<Rightarrow>
                 (let heartbeatReq =
                        req0\<lparr>rq_BasicAuth := Some (appName (dockerFactory r), Tokens_Docker h),
                             rq_UserAgent := ''flyctl/'' @ Version_String h\<rparr>
                  in case heartbeat dockerClient heartbeatReq st of
                       (Some err, st1) \<Rightarrow>
                         (case errors_As_httpError err of
                            Some (StatusCode, Body) \<Rightarrow>
                              if StatusCode = http_StatusNotFound then ((None, None), st1)
                              else ((None, Some err), st1)
                          | None \<Rightarrow> ((None, Some err), st1))
                     | (None, st1) \<Rightarrow>
                         (case client_Do dockerClient heartbeatReq st1 of
                            (Inl err, st2) \<Rightarrow> ((None, None), st2)
                          | (Inr resp, st2) \<Rightarrow>
                              if rs_StatusCode resp \<noteq> http_StatusAccepted then ((None, None), st2)
                              else
                               (let pulseInterval = 30 * time_Second;
                                    maxTime = 1 * time_Hour;
                                    done_ptr = length (signals st2);
                                    st3 = st2\<lparr>signals := signals st2 @ [\<lparr>Chan = Open, once = zero_Once\<rparr>]\<rparr>;
                                    st4 = st3\<lparr>timers := timers st3 @ [(maxTime, done_ptr)]\<rparr>;
                                    st5 = st4\<lparr>loops := loops st4 @ [(done_ptr, pulseInterval, heartbeatReq)]\<rparr>
                                in ((Some done_ptr, None), st5)))))))"

text \<open>
  \<^verbatim>\<open>func (s *StopSignal) Stop()\<close>, called by one thread at a time. A non-nil \<^verbatim>\<open>*StopSignal\<close>
  points to an allocated signal; an index outside \<open>signals\<close> is no pointer of the program,
  and the model answers it with a panic.
\<close>

definition Stop :: "nat option \<Rightarrow> heartbeat_world \<Rightarrow> go_panic + heartbeat_world" where
  "Stop s st =
    (case s of
       None \<Rightarrow> Inr st
     | Some p \<Rightarrow>
         if p < length (signals st)
         then (case once_Do_close (signals st ! p) of
                 Inl pn \<Rightarrow> Inl pn
               | Inr sg \<Rightarrow> Inr (st\<lparr>signals := (signals st)[p := sg]\<rparr>))
         else Inl (Panic ''invalid memory address or nil pointer dereference''))"

text \<open>\<open>n\<close> calls of \<^verbatim>\<open>Stop\<close> on the same handle, one after the other.\<close>

fun Stop_times :: "nat \<Rightarrow> nat option \<Rightarrow> heartbeat_world \<Rightarrow> go_panic + heartbeat_world" where
  "Stop_times 0 s st = Inr st"
| "Stop_times (Suc n) s st =
     (case Stop s st of Inl pn \<Rightarrow> Inl pn | Inr st' \<Rightarrow> Stop_times n s st')"

subsection \<open>Racing calls of \<^verbatim>\<open>Stop\<close>\<close>

text \<open>
  Several threads (the timer of \<^verbatim>\<open>time.AfterFunc\<close>, the deferred call of the background
  loop, the caller) call \<^verbatim>\<open>Stop\<close> on one non-nil handle. \<^verbatim>\<open>sync.Once\<close> is the standard
  library's:
  \<^verbatim>\<open>func (o *Once) Do(f func()) { if o.done.Load() == 0 { o.doSlow(f) } }\<close>
  \<^verbatim>\<open>func (o *Once) doSlow(f func()) { o.m.Lock(); defer o.m.Unlock();
       if o.done.Load() == 0 { defer o.done.Store(1); f() } }\<close>
  A thread is at one of these points: about to load \<open>done\<close> on the fast path (\<open>Entry\<close>),
  about to lock (\<open>AtLock\<close>), holding the lock and about to load \<open>done\<close> again
  (\<open>Locked\<close>), about to run \<^verbatim>\<open>close(s.Chan)\<close> (\<open>InF\<close>), about to store \<open>done\<close>
  (\<open>AfterF\<close>), about to unlock (\<open>Unlocking\<close>), returned, or panicked. Each step is
  atomic; a schedule is the list of the threads that take the next steps, and a thread
  that cannot move (it waits for the lock, or it is finished) leaves the state as it is.
  \<open>closes\<close> counts the executions of \<^verbatim>\<open>close(s.Chan)\<close> that closed the channel.
\<close>

datatype pc = Entry | AtLock | Locked | InF | AfterF | Unlocking | Returned | Panicked

record racing =
  sig :: StopSignal
  pcs :: "pc list"
  closes :: nat

definition thread_step :: "nat \<Rightarrow> racing \<Rightarrow> racing" where
  "thread_step t s =
    (if t < length (pcs s) then
       (case pcs s ! t of
          Entry \<Rightarrow>
            s\<lparr>pcs := (pcs s)[t := (if once_done (once (sig s)) then Returned else AtLock)]\<rparr>
        | AtLock \<Rightarrow>
            (case once_m (once (sig s)) of
               None \<Rightarrow> s\<lparr>sig := (sig s)\<lparr>once := (once (sig s))\<lparr>once_m := Some t\<rparr>\<rparr>,
                          pcs := (pcs s)[t := Locked]\<rparr>
             | Some holder \<Rightarrow> s)
        | Locked \<Rightarrow>
            s\<lparr>pcs := (pcs s)[t := (if once_done (once (sig s)) then Unlocking else InF)]\<rparr>
        | InF \<Rightarrow>
            (case close_chan (Chan (sig s)) of
               Inl pn \<Rightarrow> s\<lparr>pcs := (pcs s)[t := Panicked]\<rparr>
             | Inr c \<Rightarrow> s\<lparr>sig := (sig s)\<lparr>Chan := c\<rparr>, closes := Suc (closes s),
                          pcs := (pcs s)[t := AfterF]\<rparr>)
        | AfterF \<Rightarrow>
            s\<lparr>sig := (sig s)\<lparr>once := (once (sig s))\<lparr>once_done := True\<rparr>\<rparr>,
              pcs := (pcs s)[t := Unlocking]\<rparr>
        | Unlocking \<Rightarrow>
            s\<lparr>sig := (sig s)\<lparr>once := (once (sig s))\<lparr>once_m := None\<rparr>\<rparr>,
              pcs := (pcs s)[t := Returned]\<rparr>
        | Returned \<Rightarrow> s
        | Panicked \<Rightarrow> s)
     else s)"

fun run_schedule :: "nat list \<Rightarrow> racing \<Rightarrow> racing" where
  "run_schedule [] s = s"
| "run_schedule (t # ts) s = run_schedule ts (thread_step t s)"

text \<open>\<open>n\<close> threads enter \<^verbatim>\<open>Stop\<close> on a signal as \<^verbatim>\<open>StartHeartbeat\<close> makes it.\<close>

definition racing_start :: "nat \<Rightarrow> racing" where
  "racing_start n =
     \<lparr>sig = \<lparr>Chan = Open, once = zero_Once\<rparr>, pcs = replicate n Entry, closes = 0\<rparr>"

text \<open>The invariant of the race.\<close>

definition waiting :: "pc \<Rightarrow> bool" where
  "waiting p = (p = Entry \<or> p = AtLock \<or> p = Returned)"

fun holding :: "pc \<Rightarrow> chan \<Rightarrow> bool \<Rightarrow> bool" where
  "holding Locked c d = ((c = Closed) = d)"
| "holding InF c d = (c = Open \<and> \<not> d)"
| "holding AfterF c d = (c = Closed \<and> \<not> d)"
| "holding Unlocking c d = (c = Closed \<and> d)"
| "holding p c d = False"

definition race_inv :: "racing \<Rightarrow> bool" where
  "race_inv s =
    ((Chan (sig s) = Closed) = (closes s = 1) \<and>
     (Chan (sig s) = Open) = (closes s = 0) \<and>
     (Returned \<in> set (pcs s) \<longrightarrow> once_done (once (sig s))) \<and>
     (case once_m (once (sig s)) of
        None \<Rightarrow>
          (\<forall>i < length (pcs s). waiting (pcs s ! i)) \<and>
          (Chan (sig s) = Closed) = once_done (once (sig s))
      | Some t \<Rightarrow>
          t < length (pcs s) \<and>
          (\<forall>i < length (pcs s). i \<noteq> t \<longrightarrow> waiting (pcs s ! i)) \<and>
          holding (pcs s ! t) (Chan (sig s)) (once_done (once (sig s)))))"

text \<open>
  The steps a thread still has before it, at most: the measure by which every race comes
  to an end.
\<close>

fun remaining :: "pc \<Rightarrow> nat" where
  "remaining Entry = 6"
| "remaining AtLock = 5"
| "remaining Locked = 4"
| "remaining InF = 3"
| "remaining AfterF = 2"
| "remaining Unlocking = 1"
| "remaining Returned = 0"
| "remaining Panicked = 0"

section \<open>Reading a session\<close>

text \<open>
  The definitions of this section are not in the source: they say, in terms of what the
  strategies return, what a session is expected to do, and the theorems below compare the
  orchestrator with them.

  A strategy declines when its \<^verbatim>\<open>Run\<close> returns neither an image nor an error.
\<close>

definition declines :: "dockerClientFactory \<Rightarrow> 'o \<Rightarrow> 'o strategy \<Rightarrow> bool" where
  "declines df opts s = (rr_img (Run s df opts) = None \<and> rr_err (Run s df opts) = None)"

text \<open>
  The strategies tried, of a list of candidates: the candidates that decline, up to the
  first one that does not, and that one (if there is one).
\<close>

definition tried :: "dockerClientFactory \<Rightarrow> 'o \<Rightarrow> 'o strategy list \<Rightarrow> 'o strategy list" where
  "tried df opts ss =
     takeWhile (declines df opts) ss @ take 1 (dropWhile (declines df opts) ss)"

text \<open>
  What the first candidate that does not decline returned.
\<close>

definition first_response :: "dockerClientFactory \<Rightarrow> 'o \<Rightarrow> 'o strategy list \<Rightarrow> run_result option" where
  "first_response df opts ss =
     (case dropWhile (declines df opts) ss of [] \<Rightarrow> None | s # _ \<Rightarrow> Some (Run s df opts))"

text \<open>
  An attempt counts as failed unless it returned an image and no error; \<open>attempt_record\<close>
  is the \<^verbatim>\<open>BuildStrategyAttemptInput\<close> that \<^verbatim>\<open>finishStrategyCommon\<close> makes of it.
\<close>

definition failed_attempt :: "run_result \<Rightarrow> bool" where
  "failed_attempt res = (rr_err res \<noteq> None \<or> rr_img res = None)"

definition attempt_record :: "dockerClientFactory \<Rightarrow> 'o \<Rightarrow> 'o strategy \<Rightarrow> BuildStrategyAttemptInput" where
  "attempt_record df opts s =
     (let res = Run s df opts
      in \<lparr>Strategy = Name s,
          Result = (if failed_attempt res then ''failed'' else ''success''),
          Error = limitLogs (case rr_err res of Some err \<Rightarrow> ErrorText err | None \<Rightarrow> []),
          Note = limitLogs (rr_note res)\<rparr>)"

text \<open>
  What the session returns when a strategy returned \<open>res\<close> with an image or an error (an
  error wins over an image), and the arguments \<^verbatim>\<open>failed\<close>, \<^verbatim>\<open>logs\<close> and \<^verbatim>\<open>img\<close> it then hands to
  \<^verbatim>\<open>finishBuild\<close>; when every candidate declined, the arguments are those of the call
  after the loop.
\<close>

definition returned :: "run_result \<Rightarrow> DeploymentImage option \<times> go_error option" where
  "returned res = (case rr_err res of Some err \<Rightarrow> (None, Some err) | None \<Rightarrow> (rr_img res, None))"

definition finish_args :: "run_result \<Rightarrow> bool \<times> string \<times> DeploymentImage option" where
  "finish_args res =
     (case rr_err res of Some err \<Rightarrow> (True, ErrorText err, None) | None \<Rightarrow> (False, [], rr_img res))"

definition session_finish_args ::
  "run_result option \<Rightarrow> bool \<times> string \<times> DeploymentImage option" where
  "session_finish_args fr =
     (case fr of None \<Rightarrow> (True, ''no strategies resulted in an image'', None)
      | Some res \<Rightarrow> finish_args res)"

text \<open>
  The \<^verbatim>\<open>gql.FinishBuildInput\<close> that \<^verbatim>\<open>finishBuild\<close> sends for a record and its arguments, and
  the \<^verbatim>\<open>gql.CreateBuildInput\<close> of \<^verbatim>\<open>createBuildGql\<close>.
\<close>

definition finish_input ::
  "Resolver \<Rightarrow> build \<Rightarrow> bool \<times> string \<times> DeploymentImage option \<Rightarrow> FinishBuildInput" where
  "finish_input r bld args =
     (case args of (failed, logs, img) \<Rightarrow>
      \<lparr>fb_BuildId = BuildId bld,
       fb_AppName = appName (dockerFactory r),
       fb_MachineId = [],
       fb_Status = (if failed then ''failed'' else ''completed''),
       fb_Logs = limitLogs logs,
       fb_BuilderMeta = BuilderMeta bld,
       fb_StrategiesAttempted = StrategyResults bld,
       fb_Timings = Timings bld,
       fb_FinalImage =
         (case img of
            Some i \<Rightarrow> \<lparr>fi_Id = di_ID i, fi_Tag = di_Tag i, fi_SizeBytes = di_Size i\<rparr>
          | None \<Rightarrow> zero_BuildFinalImageInput)\<rparr>)"

definition create_input :: "Resolver \<Rightarrow> string list \<Rightarrow> BuildImageOptsInput \<Rightarrow> CreateBuildInput" where
  "create_input r names imageOpts =
     \<lparr>cb_AppName = appName (dockerFactory r),
      cb_BuilderType = (if remote (dockerFactory r) then ''remote'' else ''local''),
      cb_ImageOpts = imageOpts,
      cb_MachineId = [],
      cb_StrategiesAvailable = names\<rparr>"

text \<open>
  \<^verbatim>\<open>BuildImage\<close> fills in an empty \<^verbatim>\<open>opts.Tag\<close>, chooses its candidates by the mode, and
  copies its options into the \<^verbatim>\<open>gql.BuildImageOptsInput\<close>.
\<close>

definition with_tag :: "env \<Rightarrow> ImageOptions \<Rightarrow> ImageOptions" where
  "with_tag e opts =
     (if io_Tag opts = []
      then opts\<lparr>io_Tag := NewDeploymentTag e (io_AppName opts) (io_ImageLabel opts)\<rparr>
      else opts)"

definition builders :: "env \<Rightarrow> Resolver \<Rightarrow> imageBuilder list" where
  "builders e r =
     (if UseNixpacks (mode (dockerFactory r)) then [nixpacksBuilder e]
      else [buildpacksBuilder e, dockerfileBuilder e, builtinBuilder e])"

definition build_opts_input :: "ImageOptions \<Rightarrow> BuildImageOptsInput" where
  "build_opts_input opts =
     \<lparr>bi_BuildArgs = io_BuildArgs opts,
      bi_BuildPacks = io_Buildpacks opts,
      bi_Builder = io_Builder opts,
      bi_BuiltIn = io_BuiltIn opts,
      bi_BuiltInSettings = io_BuiltInSettings opts,
      bi_DockerfilePath = io_DockerfilePath opts,
      bi_ExtraBuildArgs = io_ExtraBuildArgs opts,
      bi_ImageLabel = io_ImageLabel opts,
      bi_ImageRef = io_ImageRef opts,
      bi_NoCache = io_NoCache opts,
      bi_Publish = io_Publish opts,
      bi_Tag = io_Tag opts,
      bi_Target = io_Target opts\<rparr>"

text \<open>
  The state of an iteration after \<^verbatim>\<open>bld.BuildAndPushFinish()\<close>, which every branch of the
  loop body calls first, and what the timing and metadata methods leave as it is.
\<close>

definition after_Run :: "'o strategy \<Rightarrow> dockerClientFactory \<Rightarrow> 'o \<Rightarrow> build \<Rightarrow> world \<Rightarrow> build \<times> world" where
  "after_Run s df opts bld w =
    (case BuildAndPushStart (ResetTimings bld) w of (bld1, w1) \<Rightarrow>
     case invoke_Run s df opts bld1 w1 of (res, bld2, w2) \<Rightarrow> BuildAndPushFinish bld2 w2)"

definition keeps :: "build \<Rightarrow> world \<Rightarrow> build \<times> world \<Rightarrow> bool" where
  "keeps b w bw =
    (StrategyResults (fst bw) = StrategyResults b \<and>
     CreateApiFailed (fst bw) = CreateApiFailed b \<and>
     BuildId (fst bw) = BuildId b \<and>
     run_log (snd bw) = run_log w \<and>
     create_requests (snd bw) = create_requests w \<and>
     finish_log (snd bw) = finish_log w \<and>
     finish_requests (snd bw) = finish_requests w)"

text \<open>
  The two loops have one shape; \<open>try_strategies\<close> is that shape for any kind of options,
  and \<open>session\<close> the shape of both entry points from \<^verbatim>\<open>createBuildGql\<close> on.
\<close>

fun try_strategies ::
  "env \<Rightarrow> Resolver \<Rightarrow> 'o \<Rightarrow> 'o strategy list \<Rightarrow> build \<Rightarrow> world
    \<Rightarrow> (DeploymentImage option \<times> go_error option) option \<times> build \<times> world" where
  "try_strategies e r opts [] bld w = (None, bld, w)"
| "try_strategies e r opts (s # ss) bld w =
    (case BuildAndPushStart (ResetTimings bld) w of (bld1, w1) \<Rightarrow>
     case invoke_Run s (dockerFactory r) opts bld1 w1 of (res, bld2, w2) \<Rightarrow>
     case rr_err res of
       Some err \<Rightarrow>
         (case BuildAndPushFinish bld2 w2 of (bld3, w3) \<Rightarrow>
          let bld4 = finishStrategyCommon (Name s) True (Some err) (rr_note res) bld3
          in case finishBuild e r bld4 True (ErrorText err) None w3 of (_, w4) \<Rightarrow>
               (Some (None, Some err), bld4, w4))
     | None \<Rightarrow>
         (case rr_img res of
            Some img \<Rightarrow>
              (case BuildAndPushFinish bld2 w2 of (bld3, w3) \<Rightarrow>
               let bld4 = finishStrategyCommon (Name s) False None (rr_note res) bld3
               in case finishBuild e r bld4 False [] (Some img) w3 of (_, w4) \<Rightarrow>
                    (Some (Some img, None), bld4, w4))
          | None \<Rightarrow>
              (case BuildAndPushFinish bld2 w2 of (bld3, w3) \<Rightarrow>
               let bld4 = finishStrategyCommon (Name s) True None (rr_note res) bld3
               in try_strategies e r opts ss bld4 w3)))"

definition session ::
  "env \<Rightarrow> Resolver \<Rightarrow> string list \<Rightarrow> BuildImageOptsInput \<Rightarrow> 'o \<Rightarrow> 'o strategy list \<Rightarrow> go_error
    \<Rightarrow> world \<Rightarrow> (DeploymentImage option \<times> go_error option) \<times> world" where
  "session e r names imageOpts opts cands exhausted w =
    (case createBuildGql e r names imageOpts w of ((bld, create_err), w1) \<Rightarrow>
     case try_strategies e r opts cands bld w1 of
       (Some ret, bld', w2) \<Rightarrow> (ret, w2)
     | (None, bld', w2) \<Rightarrow>
         (case finishBuild e r bld' True ''no strategies resulted in an image'' None w2 of
            (_, w3) \<Rightarrow> ((None, Some exhausted), w3)))"

text \<open>
  What a session has done when it returns \<open>out\<close>, having started in \<open>w\<close>.
\<close>

definition session_post ::
  "env \<Rightarrow> Resolver \<Rightarrow> 'o \<Rightarrow> 'o strategy list \<Rightarrow> go_error \<Rightarrow> world
    \<Rightarrow> (DeploymentImage option \<times> go_error option) \<times> world \<Rightarrow> bool" where
  "session_post e r opts cands exhausted w out =
    (\<exists>b ci.
       fst out = (case first_response (dockerFactory r) opts cands of
                    None \<Rightarrow> (None, Some exhausted) | Some res \<Rightarrow> returned res) \<and>
       run_log (snd out) =
         run_log w @ map (\<lambda>s. (Name s, Run s (dockerFactory r) opts)) (tried (dockerFactory r) opts cands) \<and>
       create_requests (snd out) = create_requests w @ [ci] \<and>
       cb_StrategiesAvailable ci = map Name cands \<and>
       finish_log (snd out) =
         finish_log w @ [(b, session_finish_args (first_response (dockerFactory r) opts cands))] \<and>
       StrategyResults b = map (attempt_record (dockerFactory r) opts) (tried (dockerFactory r) opts cands) \<and>
       CreateApiFailed b = isl (ResolverCreateBuild e ci) \<and>
       BuildId b = (case ResolverCreateBuild e ci of Inl err \<Rightarrow> [] | Inr resp_Id \<Rightarrow> resp_Id) \<and>
       finish_requests (snd out) =
         finish_requests w @
           (if CreateApiFailed b then []
            else [finish_input r b (session_finish_args (first_response (dockerFactory r) opts cands))]))"

section \<open>Example sessions\<close>

text \<open>
  Three strategies: one declines with a note, one builds an image, one fails. In \<open>ex_env\<close>
  the local lookup declines and the remote lookup finds the image; buildpacks decline and
  the dockerfile build fails.
\<close>

definition ex_image :: DeploymentImage where
  "ex_image = \<lparr>di_ID = ''sha256:1f2e'', di_Tag = ''registry.fly.io/app:deployment-01'',
               di_Size = 1024, di_Labels = Map.empty\<rparr>"

definition declining :: "string \<Rightarrow> 'o strategy" where
  "declining n =
     \<lparr>Name = n,
      Run = (\<lambda>df opts. \<lparr>rr_img = None, rr_note = ''no match'', rr_err = None, rr_calls = []\<rparr>)\<rparr>"

definition producing :: "string \<Rightarrow> 'o strategy" where
  "producing n =
     \<lparr>Name = n,
      Run = (\<lambda>df opts. \<lparr>rr_img = Some ex_image, rr_note = [], rr_err = None,
                          rr_calls = [Call_BuildStart, Call_BuildFinish]\<rparr>)\<rparr>"

definition erring :: "string \<Rightarrow> 'o strategy" where
  "erring n =
     \<lparr>Name = n,
      Run = (\<lambda>df opts. \<lparr>rr_img = None, rr_note = ''see log'',
                          rr_err = Some (ErrorString ''build failed''), rr_calls = []\<rparr>)\<rparr>"

definition ex_env :: env where
  "ex_env =
     \<lparr>localImageResolver = declining ''local'',
      remoteImageResolver = producing ''remote'',
      nixpacksBuilder = producing ''nixpacks'',
      buildpacksBuilder = declining ''buildpacks'',
      dockerfileBuilder = erring ''dockerfile'',
      builtinBuilder = producing ''builtin'',
      NewDeploymentTag = (\<lambda>app label. ''registry.fly.io/'' @ app @ '':'' @ label),
      ResolverCreateBuild = (\<lambda>i. Inr ''build-1''),
      ResolverFinishBuild = (\<lambda>i. Inr (fb_BuildId i, fb_Status i, 0)),
      fmt_q = (\<lambda>s. CHR 0x22 # s @ [CHR 0x22])\<rparr>"

definition ex_env_declining :: env where
  "ex_env_declining =
     ex_env\<lparr>remoteImageResolver := declining ''remote'',
            dockerfileBuilder := declining ''dockerfile'',
            builtinBuilder := declining ''builtin''\<rparr>"

definition ex_env_failing :: env where
  "ex_env_failing =
     ex_env\<lparr>remoteImageResolver := erring ''remote''\<rparr>"

definition ex_env_no_telemetry :: env where
  "ex_env_no_telemetry =
     ex_env\<lparr>ResolverCreateBuild := (\<lambda>i. Inl (ErrorString ''Could not find App''))\<rparr>"

definition ex_resolver :: Resolver where
  "ex_resolver =
     \<lparr>dockerFactory = \<lparr>mode = \<lparr>IsAvailable = True, UseNixpacks = False\<rparr>,
                       remote = False, appName = ''app'',
                       buildFn = Inl (ErrorString ''no remote builder'')\<rparr>\<rparr>"

definition ex_ref_opts :: RefOptions where
  "ex_ref_opts =
     \<lparr>ro_AppName = ''app'', ro_WorkingDir = ''.'', ro_ImageRef = ''nginx'',
      ro_ImageLabel = ''deployment-01'', ro_Publish = False, ro_Tag = []\<rparr>"

definition ex_image_opts :: ImageOptions where
  "ex_image_opts =
     \<lparr>io_AppName = ''app'', io_WorkingDir = ''.'', io_DockerfilePath = ''Dockerfile'',
      io_IgnorefilePath = [], io_ImageRef = [], io_BuildArgs = Map.empty,
      io_ExtraBuildArgs = Map.empty, io_BuildSecrets = Map.empty,
      io_ImageLabel = ''deployment-01'', io_Publish = True, io_Tag = [], io_Target = [],
      io_NoCache = False, io_BuiltIn = [], io_BuiltInSettings = Map.empty, io_Builder = [],
      io_Buildpacks = [], io_Label = Map.empty, io_BuildpacksDockerHost = [],
      io_BuildpacksVolumes = []\<rparr>"

definition ex_world :: world where
  "ex_world =
     \<lparr>clock = (\<lambda>n. 1000 + 250 * of_nat n), ticks = 0, run_log = [], create_requests = [],
      finish_log = [], finish_requests = []\<rparr>"

text \<open>
  A remote builder whose docker client answers the first request with a given status and
  every later one with \<^verbatim>\<open>202 Accepted\<close>.
\<close>

definition ex_heartbeat_env :: heartbeat_env where
  "ex_heartbeat_env =
     \<lparr>url_Parse = (\<lambda>s. Inr \<lparr>Scheme = ''tcp'', Host = ''10.0.0.5:2375'', Path = []\<rparr>),
      net_SplitHostPort = (\<lambda>s. (''10.0.0.5'', ''2375'', None)),
      URL_String = (\<lambda>u. Scheme u @ ''://'' @ Host u @ Path u),
      http_NewRequestWithContext =
        (\<lambda>method u. Inr \<lparr>rq_Method = method, rq_URL = u, rq_BasicAuth = None, rq_UserAgent = []\<rparr>),
      Tokens_Docker = ''token'',
      Version_String = ''0.1.0''\<rparr>"

definition ex_client :: "int \<Rightarrow> dockerclient_Client" where
  "ex_client first_status =
     \<lparr>DaemonHost = ''tcp://10.0.0.5:2375'',
      HTTPClient_Do =
        (\<lambda>n req. Inr \<lparr>rs_StatusCode = (if n = 0 then first_status else 202),
                        rs_Status = [], rs_Body = Inr ''body''\<rparr>)\<rparr>"

definition ex_remote_resolver :: "int \<Rightarrow> Resolver" where
  "ex_remote_resolver first_status =
     \<lparr>dockerFactory = \<lparr>mode = \<lparr>IsAvailable = True, UseNixpacks = False\<rparr>,
                       remote = True, appName = ''app'',
                       buildFn = Inr (ex_client first_status)\<rparr>\<rparr>"

definition ex_heartbeat_request :: http_Request where
  "ex_heartbeat_request =
     \<lparr>rq_Method = ''GET'', rq_URL = ''http://10.0.0.5:8080/flyio/v1/extendDeadline'',
      rq_BasicAuth = Some (''app'', ''token''), rq_UserAgent = ''flyctl/0.1.0''\<rparr>"

definition ex_heartbeat_world :: heartbeat_world where
  "ex_heartbeat_world = \<lparr>sent = [], signals = [], timers = [], loops = []\<rparr>"

section \<open>Properties\<close>

subsection \<open>Truncation\<close>

lemma length_limitLogs: "length (limitLogs s) = min (length s) logLimit"
  by (simp add: limitLogs_def)

text \<open>
  C7. \<open>limitLogs\<close> returns a string of at most 4096 bytes unchanged and returns exactly
  the trailing 4096 bytes of a longer one; hence it is idempotent and its result never
  exceeds 4096 bytes.
\<close>

theorem limitLogs_suffix_idempotent:
  "(length s \<le> 4096 \<longrightarrow> limitLogs s = s) \<and>
   (length s > 4096 \<longrightarrow>
      limitLogs s = drop (length s - 4096) s \<and> length (limitLogs s) = 4096 \<and>
      (\<exists>p. s = p @ limitLogs s)) \<and>
   limitLogs (limitLogs s) = limitLogs s \<and>
   length (limitLogs s) \<le> 4096"
proof -
  have suffix: "\<exists>p. s = p @ drop (length s - 4096) s"
    by (rule exI [of _ "take (length s - 4096) s"]) simp
  have idem: "limitLogs (limitLogs s) = limitLogs s"
    by (simp add: limitLogs_def logLimit_def)
  from suffix idem show ?thesis
    by (simp add: limitLogs_def logLimit_def)
qed

theorem limitLogs_suffix_idempotent_witness:
  "limitLogs ''abc'' = ''abc'' \<and>
   limitLogs (replicate 4095 CHR ''a'' @ ''xyz'') = replicate 4093 CHR ''a'' @ ''xyz''"
proof -
  let ?s = "replicate 4095 CHR ''a'' @ ''xyz''"
  have short: "length ''abc'' \<le> 4096" by simp
  have long: "length ?s > 4096" by simp
  have d: "drop (length ?s - 4096) ?s = replicate 4093 CHR ''a'' @ ''xyz''"
    by simp
  from limitLogs_suffix_idempotent [of "''abc''"] short
  have "limitLogs ''abc'' = ''abc''" by blast
  moreover from limitLogs_suffix_idempotent [of ?s] long
  have "limitLogs ?s = drop (length ?s - 4096) ?s" by blast
  ultimately show ?thesis using d by simp
qed

subsection \<open>The loop and the shape of a session\<close>

lemma keeps_exec_call: "keeps b w (exec_call c b w)"
  by (cases c)
     (simp_all add: keeps_def SetBuilderMetaPart1_def SetBuilderMetaPart2_def ResetTimings_def
        BuildAndPushStart_def BuildAndPushFinish_def BuilderInitStart_def BuilderInitFinish_def
        BuildStart_def BuildFinish_def ContextBuildStart_def ContextBuildFinish_def
        ImageBuildStart_def ImageBuildFinish_def PushStart_def PushFinish_def UnixMilli_Now_def)

lemma keeps_exec_calls: "keeps b w (exec_calls cs b w)"
proof (induction cs arbitrary: b w)
  case Nil
  show ?case by (simp add: keeps_def)
next
  case (Cons c cs)
  obtain b' w' where step: "exec_call c b w = (b', w')" by (cases "exec_call c b w")
  from keeps_exec_call [of b w c] step have "keeps b w (b', w')" by simp
  moreover have "keeps b' w' (exec_calls cs b' w')" by (rule Cons.IH)
  ultimately show ?case using step by (simp add: keeps_def)
qed

lemma ResolveReference_loop_eq:
  "ResolveReference_loop e r opts ss bld w = try_strategies e r opts ss bld w"
  by (induction ss arbitrary: bld w)
     (simp_all add: FinishImageStrategy_def split: prod.splits option.splits)

lemma BuildImage_loop_eq:
  "BuildImage_loop e r opts ss bld w = try_strategies e r opts ss bld w"
  by (induction ss arbitrary: bld w)
     (simp_all add: FinishStrategy_def split: prod.splits option.splits)

lemma after_Run_facts:
  assumes "after_Run s df opts bld w = (b, w')"
  shows "StrategyResults b = StrategyResults bld"
    and "CreateApiFailed b = CreateApiFailed bld"
    and "BuildId b = BuildId bld"
    and "run_log w' = run_log w @ [(Name s, Run s df opts)]"
    and "create_requests w' = create_requests w"
    and "finish_log w' = finish_log w"
    and "finish_requests w' = finish_requests w"
proof -
  obtain b1 w1 where s1: "BuildAndPushStart (ResetTimings bld) w = (b1, w1)"
    by (cases "BuildAndPushStart (ResetTimings bld) w")
  obtain b2 w2 where s2: "exec_calls (rr_calls (Run s df opts)) b1 w1 = (b2, w2)"
    by (cases "exec_calls (rr_calls (Run s df opts)) b1 w1")
  have k1: "keeps bld w (b1, w1)"
    using s1 by (auto simp: keeps_def BuildAndPushStart_def ResetTimings_def UnixMilli_Now_def)
  have k2: "keeps b1 w1 (b2, w2)"
    using keeps_exec_calls [of b1 w1 "rr_calls (Run s df opts)"] s2 by simp
  have fin: "(b, w') = BuildAndPushFinish b2 (w2\<lparr>run_log := run_log w2 @ [(Name s, Run s df opts)]\<rparr>)"
    using assms s1 s2 by (simp add: after_Run_def invoke_Run_def Let_def)
  from fin k1 k2 show "StrategyResults b = StrategyResults bld"
    and "CreateApiFailed b = CreateApiFailed bld"
    and "BuildId b = BuildId bld"
    and "run_log w' = run_log w @ [(Name s, Run s df opts)]"
    and "create_requests w' = create_requests w"
    and "finish_log w' = finish_log w"
    and "finish_requests w' = finish_requests w"
    by (simp_all add: keeps_def BuildAndPushFinish_def UnixMilli_Now_def)
qed

lemma finishBuild_facts:
  assumes "finishBuild e r bld failed logs img w = (res, w')"
  shows "run_log w' = run_log w"
    and "create_requests w' = create_requests w"
    and "finish_log w' = finish_log w @ [(bld, failed, logs, img)]"
    and "finish_requests w' =
           finish_requests w @ (if CreateApiFailed bld then [] else [finish_input r bld (failed, logs, img)])"
  using assms
  by (auto simp: finishBuild_def finish_input_def Let_def split: if_splits sum.splits option.splits prod.splits)

lemma try_strategies_Cons:
  "try_strategies e r opts (s # ss) bld w =
    (case after_Run s (dockerFactory r) opts bld w of (bld3, w3) \<Rightarrow>
     let res = Run s (dockerFactory r) opts;
         bld4 = finishStrategyCommon (Name s) (failed_attempt res) (rr_err res) (rr_note res) bld3
     in if declines (dockerFactory r) opts s then try_strategies e r opts ss bld4 w3
        else (Some (returned res), bld4,
              snd (finishBuild e r bld4 (fst (finish_args res)) (fst (snd (finish_args res)))
                     (snd (snd (finish_args res))) w3)))"
  by (simp add: after_Run_def invoke_Run_def Let_def declines_def returned_def finish_args_def
        failed_attempt_def split: prod.splits option.splits)

lemma tried_Cons:
  "tried df opts (s # ss) = (if declines df opts s then s # tried df opts ss else [s])"
  by (simp add: tried_def)

lemma first_response_Cons:
  "first_response df opts (s # ss) =
     (if declines df opts s then first_response df opts ss else Some (Run s df opts))"
  by (simp add: first_response_def)

lemma tried_Nil: "tried df opts [] = []"
  by (simp add: tried_def)

lemma first_response_Nil: "first_response df opts [] = None"
  by (simp add: first_response_def)

lemma attempt_record_eq:
  "StrategyResults (finishStrategyCommon (Name s) (failed_attempt (Run s df opts))
      (rr_err (Run s df opts)) (rr_note (Run s df opts)) b) =
   StrategyResults b @ [attempt_record df opts s]"
  by (simp add: finishStrategyCommon_def attempt_record_def Let_def)

lemma finishStrategyCommon_keeps:
  "CreateApiFailed (finishStrategyCommon n f er nt b) = CreateApiFailed b"
  "BuildId (finishStrategyCommon n f er nt b) = BuildId b"
  by (simp_all add: finishStrategyCommon_def Let_def)

lemma try_strategies_summary:
  assumes "try_strategies e r opts ss bld w = (ret, b', w')"
  shows "ret = map_option returned (first_response (dockerFactory r) opts ss) \<and>
     StrategyResults b' =
       StrategyResults bld @ map (attempt_record (dockerFactory r) opts) (tried (dockerFactory r) opts ss) \<and>
     CreateApiFailed b' = CreateApiFailed bld \<and>
     BuildId b' = BuildId bld \<and>
     run_log w' =
       run_log w @ map (\<lambda>s. (Name s, Run s (dockerFactory r) opts)) (tried (dockerFactory r) opts ss) \<and>
     create_requests w' = create_requests w \<and>
     finish_log w' =
       finish_log w @
         (case first_response (dockerFactory r) opts ss of
            None \<Rightarrow> [] | Some res \<Rightarrow> [(b', finish_args res)]) \<and>
     finish_requests w' =
       finish_requests w @
         (case first_response (dockerFactory r) opts ss of
            None \<Rightarrow> []
          | Some res \<Rightarrow> if CreateApiFailed bld then [] else [finish_input r b' (finish_args res)])"
  using assms
proof (induction ss arbitrary: bld w)
  case Nil
  then show ?case by (simp add: tried_Nil first_response_Nil)
next
  case (Cons s ss)
  let ?df = "dockerFactory r"
  let ?res = "Run s ?df opts"
  obtain b3 w3 where ar: "after_Run s ?df opts bld w = (b3, w3)"
    by (cases "after_Run s ?df opts bld w")
  note af = after_Run_facts [OF ar]
  define b4 where "b4 = finishStrategyCommon (Name s) (failed_attempt ?res)
                  (rr_err ?res) (rr_note ?res) b3"
  have b4_res: "StrategyResults b4 = StrategyResults bld @ [attempt_record ?df opts s]"
    unfolding b4_def by (simp only: attempt_record_eq af(1))
  have b4_keep: "CreateApiFailed b4 = CreateApiFailed bld" "BuildId b4 = BuildId bld"
    unfolding b4_def by (simp_all add: finishStrategyCommon_keeps af(2,3))
  show ?case
  proof (cases "declines ?df opts s")
    case True
    have rec: "try_strategies e r opts ss b4 w3 = (ret, b', w')"
      using Cons.prems ar True by (simp add: try_strategies_Cons b4_def Let_def del: try_strategies.simps)
    from Cons.IH [OF rec, unfolded b4_keep] show ?thesis
      using True by (simp add: tried_Cons first_response_Cons b4_res b4_keep af)
  next
    case False
    obtain fr w4 where fb: "finishBuild e r b4 (fst (finish_args ?res)) (fst (snd (finish_args ?res)))
                     (snd (snd (finish_args ?res))) w3 = (fr, w4)"
      by (cases "finishBuild e r b4 (fst (finish_args ?res)) (fst (snd (finish_args ?res)))
                     (snd (snd (finish_args ?res))) w3")
    note ff = finishBuild_facts [OF fb]
    have "try_strategies e r opts (s # ss) bld w = (Some (returned ?res), b4, w4)"
      using ar False fb
      by (simp add: try_strategies_Cons b4_def Let_def del: try_strategies.simps)
    with Cons.prems have out: "ret = Some (returned ?res)" "b' = b4" "w' = w4"
      by simp_all
    show ?thesis
      using False by (simp add: out tried_Cons first_response_Cons b4_res b4_keep af ff)
  qed
qed

lemma createBuildGql_facts:
  assumes "createBuildGql e r names imageOpts w = ((bld, cerr), w')"
  shows "StrategyResults bld = []"
    and "CreateApiFailed bld = isl (ResolverCreateBuild e (create_input r names imageOpts))"
    and "BuildId bld = (case ResolverCreateBuild e (create_input r names imageOpts) of
                          Inl err \<Rightarrow> [] | Inr resp_Id \<Rightarrow> resp_Id)"
    and "run_log w' = run_log w"
    and "create_requests w' = create_requests w @ [create_input r names imageOpts]"
    and "finish_log w' = finish_log w"
    and "finish_requests w' = finish_requests w"
proof -
  have eq: "createBuildGql e r names imageOpts w =
      (case ResolverCreateBuild e (create_input r names imageOpts) of
         Inl err \<Rightarrow> ((newFailedBuild, Some err),
                     w\<lparr>create_requests := create_requests w @ [create_input r names imageOpts]\<rparr>)
       | Inr resp_Id \<Rightarrow> ((newBuild resp_Id False, None),
                     w\<lparr>create_requests := create_requests w @ [create_input r names imageOpts]\<rparr>))"
    by (simp only: createBuildGql_def create_input_def Let_def)
  show "StrategyResults bld = []"
    and "CreateApiFailed bld = isl (ResolverCreateBuild e (create_input r names imageOpts))"
    and "BuildId bld = (case ResolverCreateBuild e (create_input r names imageOpts) of
                          Inl err \<Rightarrow> [] | Inr resp_Id \<Rightarrow> resp_Id)"
    and "run_log w' = run_log w"
    and "create_requests w' = create_requests w @ [create_input r names imageOpts]"
    and "finish_log w' = finish_log w"
    and "finish_requests w' = finish_requests w"
    using assms unfolding eq
    by (cases "ResolverCreateBuild e (create_input r names imageOpts)";
        auto simp: newFailedBuild_def newBuild_def)+
qed

lemma session_summary:
  assumes "session e r names imageOpts opts cands exhausted w = (ret, w')"
  shows "\<exists>b.
     ret = (case first_response (dockerFactory r) opts cands of
              None \<Rightarrow> (None, Some exhausted) | Some res \<Rightarrow> returned res) \<and>
     run_log w' =
       run_log w @ map (\<lambda>s. (Name s, Run s (dockerFactory r) opts)) (tried (dockerFactory r) opts cands) \<and>
     create_requests w' = create_requests w @ [create_input r names imageOpts] \<and>
     finish_log w' =
       finish_log w @ [(b, session_finish_args (first_response (dockerFactory r) opts cands))] \<and>
     StrategyResults b = map (attempt_record (dockerFactory r) opts) (tried (dockerFactory r) opts cands) \<and>
     CreateApiFailed b = isl (ResolverCreateBuild e (create_input r names imageOpts)) \<and>
     BuildId b = (case ResolverCreateBuild e (create_input r names imageOpts) of
                    Inl err \<Rightarrow> [] | Inr resp_Id \<Rightarrow> resp_Id) \<and>
     finish_requests w' =
       finish_requests w @
         (if CreateApiFailed b then []
          else [finish_input r b (session_finish_args (first_response (dockerFactory r) opts cands))])"
proof -
  let ?df = "dockerFactory r"
  obtain bld cerr w1 where cr: "createBuildGql e r names imageOpts w = ((bld, cerr), w1)"
    by (cases "createBuildGql e r names imageOpts w") auto
  note cf = createBuildGql_facts [OF cr]
  obtain lr b2 w2 where tr: "try_strategies e r opts cands bld w1 = (lr, b2, w2)"
    by (cases "try_strategies e r opts cands bld w1") auto
  note ts = try_strategies_summary [OF tr]
  show ?thesis
  proof (cases "first_response ?df opts cands")
    case None
    with ts have lr: "lr = None" by simp
    obtain fr w3 where fb:
      "finishBuild e r b2 True ''no strategies resulted in an image'' None w2 = (fr, w3)"
      by (cases "finishBuild e r b2 True ''no strategies resulted in an image'' None w2")
    note ff = finishBuild_facts [OF fb]
    have out: "ret = (None, Some exhausted)" "w' = w3"
      using assms cr tr lr fb by (simp_all add: session_def)
    show ?thesis
      using ts None
      by (intro exI [of _ b2]) (simp add: out cf ff session_finish_args_def)
  next
    case (Some res)
    with ts have lr: "lr = Some (returned res)" by simp
    have out: "ret = returned res" "w' = w2"
      using assms cr tr lr by (simp_all add: session_def)
    show ?thesis
      using ts Some
      by (intro exI [of _ b2]) (simp add: out cf session_finish_args_def)
  qed
qed

lemma ResolveReference_session:
  "ResolveReference e r opts w =
     session e r (map Name [localImageResolver e, remoteImageResolver e])
       \<lparr>bi_BuildArgs = Map.empty, bi_BuildPacks = [], bi_Builder = [],
        bi_BuiltIn = [], bi_BuiltInSettings = Map.empty, bi_DockerfilePath = [],
        bi_ExtraBuildArgs = Map.empty,
        bi_ImageLabel = ro_ImageLabel opts,
        bi_ImageRef = ro_ImageRef opts,
        bi_NoCache = False,
        bi_Publish = ro_Publish opts,
        bi_Tag = ro_Tag opts,
        bi_Target = []\<rparr>
       opts [localImageResolver e, remoteImageResolver e]
       (ErrorString (''could not find image '' @ fmt_q e (ro_ImageRef opts))) w"
  by (simp only: ResolveReference_def session_def createImageBuild_def ResolveReference_loop_eq
        Let_def)

lemma BuildImage_session:
  "BuildImage e r opts w =
     (if \<not> IsAvailable (mode (dockerFactory r))
      then ((None, Some (ErrorString ''docker is unavailable to build the deployment image'')), w)
      else session e r (map Name (builders e r)) (build_opts_input (with_tag e opts))
             (with_tag e opts) (builders e r)
             (ErrorString ''app does not have a Dockerfile or buildpacks configured. See https://fly.io/docs/reference/configuration/#the-build-section'')
             w)"
  by (simp only: BuildImage_def session_def createBuild_def BuildImage_loop_eq Let_def
        with_tag_def builders_def build_opts_input_def append_Nil)

lemma session_facts:
  "\<exists>b.
     fst (session e r names imageOpts opts cands exhausted w) =
       (case first_response (dockerFactory r) opts cands of
              None \<Rightarrow> (None, Some exhausted) | Some res \<Rightarrow> returned res) \<and>
     run_log (snd (session e r names imageOpts opts cands exhausted w)) =
       run_log w @ map (\<lambda>s. (Name s, Run s (dockerFactory r) opts)) (tried (dockerFactory r) opts cands) \<and>
     create_requests (snd (session e r names imageOpts opts cands exhausted w)) =
       create_requests w @ [create_input r names imageOpts] \<and>
     finish_log (snd (session e r names imageOpts opts cands exhausted w)) =
       finish_log w @ [(b, session_finish_args (first_response (dockerFactory r) opts cands))] \<and>
     StrategyResults b = map (attempt_record (dockerFactory r) opts) (tried (dockerFactory r) opts cands) \<and>
     CreateApiFailed b = isl (ResolverCreateBuild e (create_input r names imageOpts)) \<and>
     BuildId b = (case ResolverCreateBuild e (create_input r names imageOpts) of
                    Inl err \<Rightarrow> [] | Inr resp_Id \<Rightarrow> resp_Id) \<and>
     finish_requests (snd (session e r names imageOpts opts cands exhausted w)) =
       finish_requests w @
         (if CreateApiFailed b then []
          else [finish_input r b (session_finish_args (first_response (dockerFactory r) opts cands))])"
  by (rule session_summary) simp

lemma tried_split:
  "\<exists>rest. ss = tried df opts ss @ rest \<and>
          (rest \<noteq> [] \<longrightarrow> \<not> declines df opts (last (tried df opts ss)))"
proof (induction ss)
  case Nil
  show ?case by (simp add: tried_Nil)
next
  case (Cons s ss)
  show ?case
  proof (cases "declines df opts s")
    case True
    from Cons obtain rest where r: "ss = tried df opts ss @ rest"
      "rest \<noteq> [] \<longrightarrow> \<not> declines df opts (last (tried df opts ss))" by blast
    have ne: "rest \<noteq> [] \<Longrightarrow> tried df opts ss \<noteq> []"
    proof
      assume "rest \<noteq> []" "tried df opts ss = []"
      with r(1) have "ss \<noteq> []" by auto
      then obtain x xs where "ss = x # xs" by (cases ss) auto
      with \<open>tried df opts ss = []\<close> show False by (simp add: tried_Cons split: if_splits)
    qed
    show ?thesis
      using True r ne by (intro exI [of _ rest]) (auto simp: tried_Cons)
  next
    case False
    then show ?thesis by (intro exI [of _ ss]) (simp add: tried_Cons)
  qed
qed

lemma tried_butlast_decline: "s \<in> set (butlast (tried df opts ss)) \<Longrightarrow> declines df opts s"
  by (induction ss) (auto simp: tried_Nil tried_Cons split: if_splits)

lemma length_tried: "length (tried df opts ss) \<le> length ss"
  by (induction ss) (auto simp: tried_Nil tried_Cons)

lemma session_post:
  "session_post e r opts cands exhausted w
     (session e r (map Name cands) imageOpts opts cands exhausted w)"
proof -
  from session_facts [of e r "map Name cands" imageOpts opts cands exhausted w]
  obtain b where b:
     "fst (session e r (map Name cands) imageOpts opts cands exhausted w) =
       (case first_response (dockerFactory r) opts cands of
              None \<Rightarrow> (None, Some exhausted) | Some res \<Rightarrow> returned res)"
     "run_log (snd (session e r (map Name cands) imageOpts opts cands exhausted w)) =
       run_log w @ map (\<lambda>s. (Name s, Run s (dockerFactory r) opts)) (tried (dockerFactory r) opts cands)"
     "create_requests (snd (session e r (map Name cands) imageOpts opts cands exhausted w)) =
       create_requests w @ [create_input r (map Name cands) imageOpts]"
     "finish_log (snd (session e r (map Name cands) imageOpts opts cands exhausted w)) =
       finish_log w @ [(b, session_finish_args (first_response (dockerFactory r) opts cands))]"
     "StrategyResults b = map (attempt_record (dockerFactory r) opts) (tried (dockerFactory r) opts cands)"
     "CreateApiFailed b = isl (ResolverCreateBuild e (create_input r (map Name cands) imageOpts))"
     "BuildId b = (case ResolverCreateBuild e (create_input r (map Name cands) imageOpts) of
                    Inl err \<Rightarrow> [] | Inr resp_Id \<Rightarrow> resp_Id)"
     "finish_requests (snd (session e r (map Name cands) imageOpts opts cands exhausted w)) =
       finish_requests w @
         (if CreateApiFailed b then []
          else [finish_input r b (session_finish_args (first_response (dockerFactory r) opts cands))])"
    by blast
  have ci: "cb_StrategiesAvailable (create_input r (map Name cands) imageOpts) = map Name cands"
    by (simp add: create_input_def)
  show ?thesis
    unfolding session_post_def
    apply (rule exI [of _ b])
    apply (rule exI [of _ "create_input r (map Name cands) imageOpts"])
    apply (intro conjI)
            apply (rule b(1))
           apply (rule b(2))
          apply (rule b(3))
         apply (rule ci)
        apply (rule b(4))
       apply (rule b(5))
      apply (rule b(6))
     apply (rule b(7))
    apply (rule b(8))
    done
qed

lemma ResolveReference_post:
  "session_post e r opts [localImageResolver e, remoteImageResolver e]
     (ErrorString (''could not find image '' @ fmt_q e (ro_ImageRef opts))) w
     (ResolveReference e r opts w)"
  by (simp only: ResolveReference_session session_post)

lemma BuildImage_post:
  "IsAvailable (mode (dockerFactory r)) \<Longrightarrow>
   session_post e r (with_tag e opts) (builders e r)
     (ErrorString ''app does not have a Dockerfile or buildpacks configured. See https://fly.io/docs/reference/configuration/#the-build-section'') w
     (BuildImage e r opts w)"
  by (simp only: BuildImage_session session_post if_False not_True_eq_False)

lemma BuildImage_unavailable:
  "\<not> IsAvailable (mode (dockerFactory r)) \<Longrightarrow>
   BuildImage e r opts w =
     ((None, Some (ErrorString ''docker is unavailable to build the deployment image'')), w)"
  by (simp add: BuildImage_session)

subsection \<open>Order of the attempts\<close>

text \<open>
  C1. The \<^verbatim>\<open>Run\<close> calls of a session are those of the strategies tried, in the declared
  order: local-daemon then remote-registry lookup for \<^verbatim>\<open>ResolveReference\<close>; for \<^verbatim>\<open>BuildImage\<close>
  nixpacks alone in nixpacks mode and buildpacks, dockerfile, builtin otherwise (and none
  when docker is unavailable). The strategies tried are a prefix of the candidates, all but
  the last of them declined, and when a candidate is left untried the last one tried
  returned an image or an error.
\<close>

theorem strategies_tried_in_declared_order:
  "run_log (snd (ResolveReference e r ref_opts w)) =
     run_log w @ map (\<lambda>s. (Name s, Run s (dockerFactory r) ref_opts))
       (tried (dockerFactory r) ref_opts [localImageResolver e, remoteImageResolver e]) \<and>
   run_log (snd (BuildImage e r opts w)) =
     run_log w @
       (if IsAvailable (mode (dockerFactory r))
        then map (\<lambda>s. (Name s, Run s (dockerFactory r) (with_tag e opts)))
               (tried (dockerFactory r) (with_tag e opts)
                  (if UseNixpacks (mode (dockerFactory r)) then [nixpacksBuilder e]
                   else [buildpacksBuilder e, dockerfileBuilder e, builtinBuilder e]))
        else []) \<and>
   (\<exists>rest. ss = tried df o' ss @ rest \<and>
        (rest \<noteq> [] \<longrightarrow> \<not> declines df o' (last (tried df o' ss)))) \<and>
   (\<forall>s \<in> set (butlast (tried df o' ss)). declines df o' s)"
proof -
  have rr: "run_log (snd (ResolveReference e r ref_opts w)) =
     run_log w @ map (\<lambda>s. (Name s, Run s (dockerFactory r) ref_opts))
       (tried (dockerFactory r) ref_opts [localImageResolver e, remoteImageResolver e])"
    using ResolveReference_post [of e r ref_opts w] unfolding session_post_def by blast
  have bi: "run_log (snd (BuildImage e r opts w)) =
     run_log w @
       (if IsAvailable (mode (dockerFactory r))
        then map (\<lambda>s. (Name s, Run s (dockerFactory r) (with_tag e opts)))
               (tried (dockerFactory r) (with_tag e opts)
                  (if UseNixpacks (mode (dockerFactory r)) then [nixpacksBuilder e]
                   else [buildpacksBuilder e, dockerfileBuilder e, builtinBuilder e]))
        else [])"
  proof (cases "IsAvailable (mode (dockerFactory r))")
    case True
    from BuildImage_post [OF True, of e opts w]
    have "run_log (snd (BuildImage e r opts w)) =
       run_log w @ map (\<lambda>s. (Name s, Run s (dockerFactory r) (with_tag e opts)))
               (tried (dockerFactory r) (with_tag e opts) (builders e r))"
      unfolding session_post_def by blast
    with True show ?thesis by (simp only: builders_def if_True)
  next
    case False
    from BuildImage_unavailable [OF False] False show ?thesis by simp
  qed
  from rr bi tried_split [of ss df o'] tried_butlast_decline [of _ df o' ss]
  show ?thesis by blast
qed

subsection \<open>Attempt records, failure, finalization, exhaustion\<close>

lemma Strategy_attempt_record: "Strategy (attempt_record df opts s) = Name s"
  by (simp add: attempt_record_def Let_def)

lemma tried_responder:
  "s \<in> set (tried df opts ss) \<Longrightarrow> \<not> declines df opts s \<Longrightarrow>
     first_response df opts ss = Some (Run s df opts) \<and> last (tried df opts ss) = s \<and>
     tried df opts ss \<noteq> []"
proof (induction ss)
  case Nil
  then show ?case by (simp add: tried_Nil)
next
  case (Cons x xs)
  show ?case
  proof (cases "declines df opts x")
    case True
    with Cons.prems have "s \<in> set (tried df opts xs)" by (auto simp: tried_Cons)
    from Cons.IH [OF this Cons.prems(2)] True show ?thesis
      by (simp add: tried_Cons first_response_Cons)
  next
    case False
    with Cons.prems have "s = x" by (simp add: tried_Cons)
    with False show ?thesis by (simp add: tried_Cons first_response_Cons)
  qed
qed

lemma first_response_responds:
  "first_response df opts ss = Some res \<Longrightarrow> rr_err res \<noteq> None \<or> rr_img res \<noteq> None"
  by (induction ss) (auto simp: first_response_Nil first_response_Cons declines_def split: if_splits)

lemma all_decline_no_response:
  "\<forall>s \<in> set ss. declines df opts s \<Longrightarrow> first_response df opts ss = None"
  by (induction ss) (simp_all add: first_response_Nil first_response_Cons)

lemma finish_requests_cases:
  assumes "reqs' = reqs @ (if CreateApiFailed b then [] else [finish_input r b (failed, logs, img)])"
  shows "(CreateApiFailed b \<and> reqs' = reqs) \<or>
         (\<not> CreateApiFailed b \<and>
          (\<exists>req. reqs' = reqs @ [req] \<and>
             fb_BuildId req = BuildId b \<and>
             fb_Status req = (if failed then ''failed'' else ''completed'') \<and>
             fb_Logs req = limitLogs logs \<and>
             fb_StrategiesAttempted req = StrategyResults b \<and>
             fb_FinalImage req =
               (case img of
                  Some i \<Rightarrow> \<lparr>fi_Id = di_ID i, fi_Tag = di_Tag i, fi_SizeBytes = di_Size i\<rparr>
                | None \<Rightarrow> zero_BuildFinalImageInput)))"
proof (cases "CreateApiFailed b")
  case True
  with assms show ?thesis by simp
next
  case False
  have "fb_BuildId (finish_input r b (failed, logs, img)) = BuildId b"
    "fb_Status (finish_input r b (failed, logs, img)) = (if failed then ''failed'' else ''completed'')"
    "fb_Logs (finish_input r b (failed, logs, img)) = limitLogs logs"
    "fb_StrategiesAttempted (finish_input r b (failed, logs, img)) = StrategyResults b"
    "fb_FinalImage (finish_input r b (failed, logs, img)) =
               (case img of
                  Some i \<Rightarrow> \<lparr>fi_Id = di_ID i, fi_Tag = di_Tag i, fi_SizeBytes = di_Size i\<rparr>
                | None \<Rightarrow> zero_BuildFinalImageInput)"
    by (simp_all add: finish_input_def)
  with False assms show ?thesis by auto
qed

lemma session_post_attempts:
  assumes "session_post e r opts cands exhausted w out"
  shows "StrategyResults (fst (last (finish_log (snd out)))) =
           map (attempt_record (dockerFactory r) opts) (tried (dockerFactory r) opts cands) \<and>
         map Strategy (StrategyResults (fst (last (finish_log (snd out))))) =
           map fst (drop (length (run_log w)) (run_log (snd out))) \<and>
         length (StrategyResults (fst (last (finish_log (snd out))))) =
           length (run_log (snd out)) - length (run_log w)"
proof -
  from assms obtain b where
    fl: "finish_log (snd out) =
         finish_log w @ [(b, session_finish_args (first_response (dockerFactory r) opts cands))]"
    and sr: "StrategyResults b =
         map (attempt_record (dockerFactory r) opts) (tried (dockerFactory r) opts cands)"
    and rl: "run_log (snd out) =
         run_log w @ map (\<lambda>s. (Name s, Run s (dockerFactory r) opts)) (tried (dockerFactory r) opts cands)"
    unfolding session_post_def by blast
  from fl have b: "fst (last (finish_log (snd out))) = b" by simp
  show ?thesis
    unfolding b by (simp add: sr rl Strategy_attempt_record comp_def)
qed

text \<open>
  C2. When a session finalizes its telemetry record, the record holds exactly one
  \<^verbatim>\<open>BuildStrategyAttemptInput\<close> for each strategy tried, whatever the attempt returned (an
  image, an error, or neither), in the order in which the strategies were tried: the
  strategy names of the records are the names of the \<^verbatim>\<open>Run\<close> calls of the session, and there
  are as many records as calls. For \<^verbatim>\<open>BuildImage\<close> this is for a session that passes the
  docker availability check.
\<close>

theorem one_attempt_record_per_strategy_tried:
  "(let w' = snd (ResolveReference e r ref_opts w);
        results = StrategyResults (fst (last (finish_log w')))
    in results = map (attempt_record (dockerFactory r) ref_opts)
                   (tried (dockerFactory r) ref_opts [localImageResolver e, remoteImageResolver e]) \<and>
       map Strategy results = map fst (drop (length (run_log w)) (run_log w')) \<and>
       length results = length (run_log w') - length (run_log w)) \<and>
   (IsAvailable (mode (dockerFactory r)) \<longrightarrow>
    (let w' = snd (BuildImage e r opts w);
         results = StrategyResults (fst (last (finish_log w')))
     in results = map (attempt_record (dockerFactory r) (with_tag e opts))
                    (tried (dockerFactory r) (with_tag e opts)
                       (if UseNixpacks (mode (dockerFactory r)) then [nixpacksBuilder e]
                        else [buildpacksBuilder e, dockerfileBuilder e, builtinBuilder e])) \<and>
        map Strategy results = map fst (drop (length (run_log w)) (run_log w')) \<and>
        length results = length (run_log w') - length (run_log w)))"
proof -
  note rr = session_post_attempts [OF ResolveReference_post, of e r ref_opts w]
  have bi: "(let w' = snd (BuildImage e r opts w);
         results = StrategyResults (fst (last (finish_log w')))
     in results = map (attempt_record (dockerFactory r) (with_tag e opts))
                    (tried (dockerFactory r) (with_tag e opts) (builders e r)) \<and>
        map Strategy results = map fst (drop (length (run_log w)) (run_log w')) \<and>
        length results = length (run_log w') - length (run_log w))"
    if av: "IsAvailable (mode (dockerFactory r))"
    unfolding Let_def by (rule session_post_attempts [OF BuildImage_post [OF av]])
  show ?thesis
    using rr bi unfolding builders_def Let_def by blast
qed

lemma session_post_hard_failure:
  assumes post: "session_post e r opts cands exhausted w out"
    and inv: "(n, res) \<in> set (drop (length (run_log w)) (run_log (snd out)))"
    and err: "rr_err res = Some err"
  shows "fst out = (None, Some err) \<and>
     last (run_log (snd out)) = (n, res) \<and>
     (\<exists>b. finish_log (snd out) = finish_log w @ [(b, True, ErrorText err, None)] \<and>
          StrategyResults b \<noteq> [] \<and>
          last (StrategyResults b) =
            \<lparr>Strategy = n, Result = ''failed'', Error = limitLogs (ErrorText err),
             Note = limitLogs (rr_note res)\<rparr> \<and>
          ((CreateApiFailed b \<and> finish_requests (snd out) = finish_requests w) \<or>
           (\<not> CreateApiFailed b \<and>
            (\<exists>req. finish_requests (snd out) = finish_requests w @ [req] \<and>
               fb_Status req = ''failed'' \<and>
               fb_Logs req = limitLogs (ErrorText err) \<and>
               fb_StrategiesAttempted req = StrategyResults b))))"
proof -
  let ?df = "dockerFactory r"
  from post obtain b where
    ret: "fst out = (case first_response ?df opts cands of
                    None \<Rightarrow> (None, Some exhausted) | Some res \<Rightarrow> returned res)"
    and rl: "run_log (snd out) =
         run_log w @ map (\<lambda>s. (Name s, Run s ?df opts)) (tried ?df opts cands)"
    and fl: "finish_log (snd out) =
         finish_log w @ [(b, session_finish_args (first_response ?df opts cands))]"
    and sr: "StrategyResults b = map (attempt_record ?df opts) (tried ?df opts cands)"
    and fr: "finish_requests (snd out) =
         finish_requests w @
           (if CreateApiFailed b then []
            else [finish_input r b (session_finish_args (first_response ?df opts cands))])"
    unfolding session_post_def by blast
  from inv rl obtain s where s: "s \<in> set (tried ?df opts cands)" "n = Name s" "res = Run s ?df opts"
    by auto
  from s(3) err have nd: "\<not> declines ?df opts s" by (simp add: declines_def)
  from tried_responder [OF s(1) nd]
  have first: "first_response ?df opts cands = Some res"
    and lst: "last (tried ?df opts cands) = s"
    and ne: "tried ?df opts cands \<noteq> []"
    using s(3) by simp_all
  have args: "session_finish_args (first_response ?df opts cands) = (True, ErrorText err, None)"
    by (simp add: first session_finish_args_def finish_args_def err)
  have r1: "fst out = (None, Some err)"
    by (simp add: ret first returned_def err)
  have r2: "last (run_log (snd out)) = (n, res)"
    using ne by (simp add: rl last_map lst s(2,3))
  have r3: "StrategyResults b \<noteq> []" using ne by (simp add: sr)
  have r4: "last (StrategyResults b) =
            \<lparr>Strategy = n, Result = ''failed'', Error = limitLogs (ErrorText err),
             Note = limitLogs (rr_note res)\<rparr>"
    using ne err s(3)
    by (simp add: sr last_map lst attempt_record_def Let_def failed_attempt_def s(2))
  from finish_requests_cases [OF fr [unfolded args]]
  have r5: "(CreateApiFailed b \<and> finish_requests (snd out) = finish_requests w) \<or>
           (\<not> CreateApiFailed b \<and>
            (\<exists>req. finish_requests (snd out) = finish_requests w @ [req] \<and>
               fb_Status req = ''failed'' \<and>
               fb_Logs req = limitLogs (ErrorText err) \<and>
               fb_StrategiesAttempted req = StrategyResults b))"
    by auto
  from r1 r2 r3 r4 r5 fl [unfolded args] show ?thesis by blast
qed

lemma BuildImage_unavailable_run_log:
  "\<not> IsAvailable (mode (dockerFactory r)) \<Longrightarrow>
   drop (length (run_log w)) (run_log (snd (BuildImage e r opts w))) = []"
  by (simp add: BuildImage_unavailable)

text \<open>
  C3. When a \<^verbatim>\<open>Run\<close> call of the session returns a non-nil error, the session returns
  \<^verbatim>\<open>(nil, err)\<close> with that very error, that call is the last \<^verbatim>\<open>Run\<close> call of the session, the
  last attempt record is a failed one with the strategy's name, the error's text and the
  note (each cut by \<open>limitLogs\<close>, C7), and \<^verbatim>\<open>finishBuild\<close> is called once, as failed, with the
  error's text; the mutation it sends, unless creating the record had failed, has the
  status \<^verbatim>\<open>failed\<close> and that text as its logs.
\<close>

theorem hard_failure_ends_the_session:
  "((n, res) \<in> set (drop (length (run_log w)) (run_log (snd (ResolveReference e r ref_opts w)))) \<and>
    rr_err res = Some err \<longrightarrow>
     fst (ResolveReference e r ref_opts w) = (None, Some err) \<and>
     last (run_log (snd (ResolveReference e r ref_opts w))) = (n, res) \<and>
     (\<exists>b. finish_log (snd (ResolveReference e r ref_opts w)) =
             finish_log w @ [(b, True, ErrorText err, None)] \<and>
          StrategyResults b \<noteq> [] \<and>
          last (StrategyResults b) =
            \<lparr>Strategy = n, Result = ''failed'', Error = limitLogs (ErrorText err),
             Note = limitLogs (rr_note res)\<rparr> \<and>
          ((CreateApiFailed b \<and>
            finish_requests (snd (ResolveReference e r ref_opts w)) = finish_requests w) \<or>
           (\<not> CreateApiFailed b \<and>
            (\<exists>req. finish_requests (snd (ResolveReference e r ref_opts w)) =
                     finish_requests w @ [req] \<and>
               fb_Status req = ''failed'' \<and>
               fb_Logs req = limitLogs (ErrorText err) \<and>
               fb_StrategiesAttempted req = StrategyResults b))))) \<and>
   ((n', res') \<in> set (drop (length (run_log w)) (run_log (snd (BuildImage e r opts w)))) \<and>
    rr_err res' = Some err' \<longrightarrow>
     fst (BuildImage e r opts w) = (None, Some err') \<and>
     last (run_log (snd (BuildImage e r opts w))) = (n', res') \<and>
     (\<exists>b. finish_log (snd (BuildImage e r opts w)) =
             finish_log w @ [(b, True, ErrorText err', None)] \<and>
          StrategyResults b \<noteq> [] \<and>
          last (StrategyResults b) =
            \<lparr>Strategy = n', Result = ''failed'', Error = limitLogs (ErrorText err'),
             Note = limitLogs (rr_note res')\<rparr> \<and>
          ((CreateApiFailed b \<and>
            finish_requests (snd (BuildImage e r opts w)) = finish_requests w) \<or>
           (\<not> CreateApiFailed b \<and>
            (\<exists>req. finish_requests (snd (BuildImage e r opts w)) =
                     finish_requests w @ [req] \<and>
               fb_Status req = ''failed'' \<and>
               fb_Logs req = limitLogs (ErrorText err') \<and>
               fb_StrategiesAttempted req = StrategyResults b)))))"
proof (rule conjI; rule impI)
  assume a: "(n, res) \<in> set (drop (length (run_log w)) (run_log (snd (ResolveReference e r ref_opts w)))) \<and>
    rr_err res = Some err"
  from session_post_hard_failure [OF ResolveReference_post conjunct1 [OF a] conjunct2 [OF a]]
  show "fst (ResolveReference e r ref_opts w) = (None, Some err) \<and>
     last (run_log (snd (ResolveReference e r ref_opts w))) = (n, res) \<and>
     (\<exists>b. finish_log (snd (ResolveReference e r ref_opts w)) =
             finish_log w @ [(b, True, ErrorText err, None)] \<and>
          StrategyResults b \<noteq> [] \<and>
          last (StrategyResults b) =
            \<lparr>Strategy = n, Result = ''failed'', Error = limitLogs (ErrorText err),
             Note = limitLogs (rr_note res)\<rparr> \<and>
          ((CreateApiFailed b \<and>
            finish_requests (snd (ResolveReference e r ref_opts w)) = finish_requests w) \<or>
           (\<not> CreateApiFailed b \<and>
            (\<exists>req. finish_requests (snd (ResolveReference e r ref_opts w)) =
                     finish_requests w @ [req] \<and>
               fb_Status req = ''failed'' \<and>
               fb_Logs req = limitLogs (ErrorText err) \<and>
               fb_StrategiesAttempted req = StrategyResults b))))" .
next
  assume a: "(n', res') \<in> set (drop (length (run_log w)) (run_log (snd (BuildImage e r opts w)))) \<and>
    rr_err res' = Some err'"
  have av: "IsAvailable (mode (dockerFactory r))"
  proof (rule ccontr)
    assume "\<not> IsAvailable (mode (dockerFactory r))"
    from BuildImage_unavailable_run_log [OF this] a show False by simp
  qed
  from session_post_hard_failure [OF BuildImage_post [OF av] conjunct1 [OF a] conjunct2 [OF a]]
  show "fst (BuildImage e r opts w) = (None, Some err') \<and>
     last (run_log (snd (BuildImage e r opts w))) = (n', res') \<and>
     (\<exists>b. finish_log (snd (BuildImage e r opts w)) =
             finish_log w @ [(b, True, ErrorText err', None)] \<and>
          StrategyResults b \<noteq> [] \<and>
          last (StrategyResults b) =
            \<lparr>Strategy = n', Result = ''failed'', Error = limitLogs (ErrorText err'),
             Note = limitLogs (rr_note res')\<rparr> \<and>
          ((CreateApiFailed b \<and>
            finish_requests (snd (BuildImage e r opts w)) = finish_requests w) \<or>
           (\<not> CreateApiFailed b \<and>
            (\<exists>req. finish_requests (snd (BuildImage e r opts w)) =
                     finish_requests w @ [req] \<and>
               fb_Status req = ''failed'' \<and>
               fb_Logs req = limitLogs (ErrorText err') \<and>
               fb_StrategiesAttempted req = StrategyResults b))))" .
qed

lemma session_post_finalized:
  assumes post: "session_post e r opts cands exhausted w out"
  shows "fst (fst out) =
       (case first_response (dockerFactory r) opts cands of
          Some res \<Rightarrow> (if rr_err res = None then rr_img res else None)
        | None \<Rightarrow> None) \<and>
     (\<exists>b logs.
        finish_log (snd out) = finish_log w @ [(b, fst (fst out) = None, logs, fst (fst out))] \<and>
        ((CreateApiFailed b \<and> finish_requests (snd out) = finish_requests w) \<or>
         (\<not> CreateApiFailed b \<and>
          (\<exists>req. finish_requests (snd out) = finish_requests w @ [req] \<and>
             fb_BuildId req = BuildId b \<and>
             fb_Status req = (if fst (fst out) = None then ''failed'' else ''completed'') \<and>
             fb_FinalImage req =
               (case fst (fst out) of
                  Some i \<Rightarrow> \<lparr>fi_Id = di_ID i, fi_Tag = di_Tag i, fi_SizeBytes = di_Size i\<rparr>
                | None \<Rightarrow> zero_BuildFinalImageInput)))))"
proof -
  let ?df = "dockerFactory r"
  let ?fr = "first_response ?df opts cands"
  from post obtain b where
    ret: "fst out = (case ?fr of None \<Rightarrow> (None, Some exhausted) | Some res \<Rightarrow> returned res)"
    and fl: "finish_log (snd out) = finish_log w @ [(b, session_finish_args ?fr)]"
    and fr: "finish_requests (snd out) =
         finish_requests w @
           (if CreateApiFailed b then [] else [finish_input r b (session_finish_args ?fr)])"
    unfolding session_post_def by blast
  have img: "fst (fst out) =
       (case ?fr of Some res \<Rightarrow> (if rr_err res = None then rr_img res else None) | None \<Rightarrow> None)"
    by (cases ?fr) (auto simp: ret returned_def split: option.splits)
  obtain logs where args: "session_finish_args ?fr = (fst (fst out) = None, logs, fst (fst out))"
  proof (cases ?fr)
    case None
    then have "session_finish_args ?fr =
        (fst (fst out) = None, ''no strategies resulted in an image'', fst (fst out))"
      by (simp add: session_finish_args_def ret)
    then show ?thesis by (rule that)
  next
    case (Some res)
    show ?thesis
    proof (cases "rr_err res")
      case None
      with first_response_responds [OF Some] have "rr_img res \<noteq> None" by simp
      with None Some have "session_finish_args ?fr = (fst (fst out) = None, [], fst (fst out))"
        by (auto simp: session_finish_args_def finish_args_def ret returned_def)
      then show ?thesis by (rule that)
    next
      case (Some err)
      with \<open>?fr = Some res\<close>
      have "session_finish_args ?fr = (fst (fst out) = None, ErrorText err, fst (fst out))"
        by (simp add: session_finish_args_def finish_args_def ret returned_def)
      then show ?thesis by (rule that)
    qed
  qed
  from finish_requests_cases [OF fr [unfolded args]]
  have reqs: "(CreateApiFailed b \<and> finish_requests (snd out) = finish_requests w) \<or>
         (\<not> CreateApiFailed b \<and>
          (\<exists>req. finish_requests (snd out) = finish_requests w @ [req] \<and>
             fb_BuildId req = BuildId b \<and>
             fb_Status req = (if fst (fst out) = None then ''failed'' else ''completed'') \<and>
             fb_FinalImage req =
               (case fst (fst out) of
                  Some i \<Rightarrow> \<lparr>fi_Id = di_ID i, fi_Tag = di_Tag i, fi_SizeBytes = di_Size i\<rparr>
                | None \<Rightarrow> zero_BuildFinalImageInput)))"
    by blast
  from img fl [unfolded args] reqs show ?thesis by blast
qed

text \<open>
  C4. A session that enters the strategy loop calls \<^verbatim>\<open>finishBuild\<close> exactly once, as
  completed if and only if it returns an image (the image of the first strategy that did
  not decline, when that strategy returned no error), and with that image. The one
  mutation it sends, unless creating the record had failed, has the status \<^verbatim>\<open>completed\<close>
  if an image is returned and \<^verbatim>\<open>failed\<close> otherwise, and its final image has the identifier,
  tag and size of the image returned, or is left empty when there is none.
\<close>

theorem session_finalized_exactly_once:
  "(fst (fst (ResolveReference e r ref_opts w)) =
       (case first_response (dockerFactory r) ref_opts [localImageResolver e, remoteImageResolver e] of
          Some res \<Rightarrow> (if rr_err res = None then rr_img res else None)
        | None \<Rightarrow> None) \<and>
     (\<exists>b logs.
        finish_log (snd (ResolveReference e r ref_opts w)) =
          finish_log w @ [(b, fst (fst (ResolveReference e r ref_opts w)) = None, logs,
                           fst (fst (ResolveReference e r ref_opts w)))] \<and>
        ((CreateApiFailed b \<and>
          finish_requests (snd (ResolveReference e r ref_opts w)) = finish_requests w) \<or>
         (\<not> CreateApiFailed b \<and>
          (\<exists>req. finish_requests (snd (ResolveReference e r ref_opts w)) = finish_requests w @ [req] \<and>
             fb_BuildId req = BuildId b \<and>
             fb_Status req = (if fst (fst (ResolveReference e r ref_opts w)) = None
                              then ''failed'' else ''completed'') \<and>
             fb_FinalImage req =
               (case fst (fst (ResolveReference e r ref_opts w)) of
                  Some i \<Rightarrow> \<lparr>fi_Id = di_ID i, fi_Tag = di_Tag i, fi_SizeBytes = di_Size i\<rparr>
                | None \<Rightarrow> zero_BuildFinalImageInput)))))) \<and>
   (IsAvailable (mode (dockerFactory r)) \<longrightarrow>
     fst (fst (BuildImage e r opts w)) =
       (case first_response (dockerFactory r) (with_tag e opts)
               (if UseNixpacks (mode (dockerFactory r)) then [nixpacksBuilder e]
                else [buildpacksBuilder e, dockerfileBuilder e, builtinBuilder e]) of
          Some res \<Rightarrow> (if rr_err res = None then rr_img res else None)
        | None \<Rightarrow> None) \<and>
     (\<exists>b logs.
        finish_log (snd (BuildImage e r opts w)) =
          finish_log w @ [(b, fst (fst (BuildImage e r opts w)) = None, logs,
                           fst (fst (BuildImage e r opts w)))] \<and>
        ((CreateApiFailed b \<and>
          finish_requests (snd (BuildImage e r opts w)) = finish_requests w) \<or>
         (\<not> CreateApiFailed b \<and>
          (\<exists>req. finish_requests (snd (BuildImage e r opts w)) = finish_requests w @ [req] \<and>
             fb_BuildId req = BuildId b \<and>
             fb_Status req = (if fst (fst (BuildImage e r opts w)) = None
                              then ''failed'' else ''completed'') \<and>
             fb_FinalImage req =
               (case fst (fst (BuildImage e r opts w)) of
                  Some i \<Rightarrow> \<lparr>fi_Id = di_ID i, fi_Tag = di_Tag i, fi_SizeBytes = di_Size i\<rparr>
                | None \<Rightarrow> zero_BuildFinalImageInput))))))"
proof (rule conjI)
  show "fst (fst (ResolveReference e r ref_opts w)) =
       (case first_response (dockerFactory r) ref_opts [localImageResolver e, remoteImageResolver e] of
          Some res \<Rightarrow> (if rr_err res = None then rr_img res else None)
        | None \<Rightarrow> None) \<and>
     (\<exists>b logs.
        finish_log (snd (ResolveReference e r ref_opts w)) =
          finish_log w @ [(b, fst (fst (ResolveReference e r ref_opts w)) = None, logs,
                           fst (fst (ResolveReference e r ref_opts w)))] \<and>
        ((CreateApiFailed b \<and>
          finish_requests (snd (ResolveReference e r ref_opts w)) = finish_requests w) \<or>
         (\<not> CreateApiFailed b \<and>
          (\<exists>req. finish_requests (snd (ResolveReference e r ref_opts w)) = finish_requests w @ [req] \<and>
             fb_BuildId req = BuildId b \<and>
             fb_Status req = (if fst (fst (ResolveReference e r ref_opts w)) = None
                              then ''failed'' else ''completed'') \<and>
             fb_FinalImage req =
               (case fst (fst (ResolveReference e r ref_opts w)) of
                  Some i \<Rightarrow> \<lparr>fi_Id = di_ID i, fi_Tag = di_Tag i, fi_SizeBytes = di_Size i\<rparr>
                | None \<Rightarrow> zero_BuildFinalImageInput)))))"
    by (rule session_post_finalized [OF ResolveReference_post])
next
  show "IsAvailable (mode (dockerFactory r)) \<longrightarrow>
     fst (fst (BuildImage e r opts w)) =
       (case first_response (dockerFactory r) (with_tag e opts)
               (if UseNixpacks (mode (dockerFactory r)) then [nixpacksBuilder e]
                else [buildpacksBuilder e, dockerfileBuilder e, builtinBuilder e]) of
          Some res \<Rightarrow> (if rr_err res = None then rr_img res else None)
        | None \<Rightarrow> None) \<and>
     (\<exists>b logs.
        finish_log (snd (BuildImage e r opts w)) =
          finish_log w @ [(b, fst (fst (BuildImage e r opts w)) = None, logs,
                           fst (fst (BuildImage e r opts w)))] \<and>
        ((CreateApiFailed b \<and>
          finish_requests (snd (BuildImage e r opts w)) = finish_requests w) \<or>
         (\<not> CreateApiFailed b \<and>
          (\<exists>req. finish_requests (snd (BuildImage e r opts w)) = finish_requests w @ [req] \<and>
             fb_BuildId req = BuildId b \<and>
             fb_Status req = (if fst (fst (BuildImage e r opts w)) = None
                              then ''failed'' else ''completed'') \<and>
             fb_FinalImage req =
               (case fst (fst (BuildImage e r opts w)) of
                  Some i \<Rightarrow> \<lparr>fi_Id = di_ID i, fi_Tag = di_Tag i, fi_SizeBytes = di_Size i\<rparr>
                | None \<Rightarrow> zero_BuildFinalImageInput)))))"
  proof (rule impI)
    assume av: "IsAvailable (mode (dockerFactory r))"
    show "fst (fst (BuildImage e r opts w)) =
       (case first_response (dockerFactory r) (with_tag e opts)
               (if UseNixpacks (mode (dockerFactory r)) then [nixpacksBuilder e]
                else [buildpacksBuilder e, dockerfileBuilder e, builtinBuilder e]) of
          Some res \<Rightarrow> (if rr_err res = None then rr_img res else None)
        | None \<Rightarrow> None) \<and>
     (\<exists>b logs.
        finish_log (snd (BuildImage e r opts w)) =
          finish_log w @ [(b, fst (fst (BuildImage e r opts w)) = None, logs,
                           fst (fst (BuildImage e r opts w)))] \<and>
        ((CreateApiFailed b \<and>
          finish_requests (snd (BuildImage e r opts w)) = finish_requests w) \<or>
         (\<not> CreateApiFailed b \<and>
          (\<exists>req. finish_requests (snd (BuildImage e r opts w)) = finish_requests w @ [req] \<and>
             fb_BuildId req = BuildId b \<and>
             fb_Status req = (if fst (fst (BuildImage e r opts w)) = None
                              then ''failed'' else ''completed'') \<and>
             fb_FinalImage req =
               (case fst (fst (BuildImage e r opts w)) of
                  Some i \<Rightarrow> \<lparr>fi_Id = di_ID i, fi_Tag = di_Tag i, fi_SizeBytes = di_Size i\<rparr>
                | None \<Rightarrow> zero_BuildFinalImageInput)))))"
      using session_post_finalized [OF BuildImage_post [OF av], of e opts w]
      unfolding builders_def .
  qed
qed

lemma tried_all_decline:
  "\<forall>s \<in> set ss. declines df opts s \<Longrightarrow> tried df opts ss = ss"
  by (induction ss) (simp_all add: tried_Nil tried_Cons)

lemma limitLogs_exhausted:
  "limitLogs ''no strategies resulted in an image'' = ''no strategies resulted in an image''"
  by (simp add: limitLogs_def logLimit_def)

lemma session_post_exhausted:
  assumes post: "session_post e r opts cands exhausted w out"
    and decl: "\<forall>s \<in> set cands. declines (dockerFactory r) opts s"
  shows "fst out = (None, Some exhausted) \<and>
     map fst (drop (length (run_log w)) (run_log (snd out))) = map Name cands \<and>
     (\<exists>b. finish_log (snd out) =
             finish_log w @ [(b, True, ''no strategies resulted in an image'', None)] \<and>
          ((CreateApiFailed b \<and> finish_requests (snd out) = finish_requests w) \<or>
           (\<not> CreateApiFailed b \<and>
            (\<exists>req. finish_requests (snd out) = finish_requests w @ [req] \<and>
               fb_Status req = ''failed'' \<and>
               fb_Logs req = ''no strategies resulted in an image''))))"
proof -
  let ?df = "dockerFactory r"
  let ?fr = "first_response ?df opts cands"
  from post obtain b where
    ret: "fst out = (case ?fr of None \<Rightarrow> (None, Some exhausted) | Some res \<Rightarrow> returned res)"
    and rl: "run_log (snd out) =
         run_log w @ map (\<lambda>s. (Name s, Run s ?df opts)) (tried ?df opts cands)"
    and fl: "finish_log (snd out) = finish_log w @ [(b, session_finish_args ?fr)]"
    and fr: "finish_requests (snd out) =
         finish_requests w @
           (if CreateApiFailed b then [] else [finish_input r b (session_finish_args ?fr)])"
    unfolding session_post_def by blast
  note none = all_decline_no_response [OF decl]
  have args: "session_finish_args ?fr = (True, ''no strategies resulted in an image'', None)"
    by (simp add: none session_finish_args_def)
  have r1: "fst out = (None, Some exhausted)" by (simp add: ret none)
  have r2: "map fst (drop (length (run_log w)) (run_log (snd out))) = map Name cands"
    by (simp add: rl tried_all_decline [OF decl] comp_def)
  from finish_requests_cases [OF fr [unfolded args]]
  have r3: "(CreateApiFailed b \<and> finish_requests (snd out) = finish_requests w) \<or>
           (\<not> CreateApiFailed b \<and>
            (\<exists>req. finish_requests (snd out) = finish_requests w @ [req] \<and>
               fb_Status req = ''failed'' \<and>
               fb_Logs req = ''no strategies resulted in an image''))"
    by (auto simp: limitLogs_exhausted)
  from r1 r2 r3 fl [unfolded args] show ?thesis by blast
qed

text \<open>
  C5, as amended. When every candidate declines, every candidate was tried, and the session
  is finalized once, as failed, with the logs \<^verbatim>\<open>no strategies resulted in an image\<close>.
  \<^verbatim>\<open>ResolveReference\<close> then returns the error \<^verbatim>\<open>could not find image\<close> followed by the quoted
  image reference, and \<^verbatim>\<open>BuildImage\<close> the error
  \<^verbatim>\<open>app does not have a Dockerfile or buildpacks configured\<close> with its link to the
  documentation: the error returned is not the message of the finalization.
\<close>

theorem exhaustion_reported:
  "((\<forall>s \<in> set [localImageResolver e, remoteImageResolver e]. declines (dockerFactory r) ref_opts s) \<longrightarrow>
     fst (ResolveReference e r ref_opts w) =
       (None, Some (ErrorString (''could not find image '' @ fmt_q e (ro_ImageRef ref_opts)))) \<and>
     map fst (drop (length (run_log w)) (run_log (snd (ResolveReference e r ref_opts w)))) =
       map Name [localImageResolver e, remoteImageResolver e] \<and>
     (\<exists>b. finish_log (snd (ResolveReference e r ref_opts w)) =
             finish_log w @ [(b, True, ''no strategies resulted in an image'', None)] \<and>
          ((CreateApiFailed b \<and>
            finish_requests (snd (ResolveReference e r ref_opts w)) = finish_requests w) \<or>
           (\<not> CreateApiFailed b \<and>
            (\<exists>req. finish_requests (snd (ResolveReference e r ref_opts w)) =
                     finish_requests w @ [req] \<and>
               fb_Status req = ''failed'' \<and>
               fb_Logs req = ''no strategies resulted in an image''))))) \<and>
   (IsAvailable (mode (dockerFactory r)) \<and>
    (\<forall>s \<in> set (builders e r). declines (dockerFactory r) (with_tag e opts) s) \<longrightarrow>
     fst (BuildImage e r opts w) =
       (None, Some (ErrorString
          ''app does not have a Dockerfile or buildpacks configured. See https://fly.io/docs/reference/configuration/#the-build-section'')) \<and>
     map fst (drop (length (run_log w)) (run_log (snd (BuildImage e r opts w)))) =
       map Name (builders e r) \<and>
     (\<exists>b. finish_log (snd (BuildImage e r opts w)) =
             finish_log w @ [(b, True, ''no strategies resulted in an image'', None)] \<and>
          ((CreateApiFailed b \<and>
            finish_requests (snd (BuildImage e r opts w)) = finish_requests w) \<or>
           (\<not> CreateApiFailed b \<and>
            (\<exists>req. finish_requests (snd (BuildImage e r opts w)) =
                     finish_requests w @ [req] \<and>
               fb_Status req = ''failed'' \<and>
               fb_Logs req = ''no strategies resulted in an image'')))))"
proof (rule conjI; rule impI)
  assume "\<forall>s \<in> set [localImageResolver e, remoteImageResolver e]. declines (dockerFactory r) ref_opts s"
  from session_post_exhausted [OF ResolveReference_post this]
  show "fst (ResolveReference e r ref_opts w) =
       (None, Some (ErrorString (''could not find image '' @ fmt_q e (ro_ImageRef ref_opts)))) \<and>
     map fst (drop (length (run_log w)) (run_log (snd (ResolveReference e r ref_opts w)))) =
       map Name [localImageResolver e, remoteImageResolver e] \<and>
     (\<exists>b. finish_log (snd (ResolveReference e r ref_opts w)) =
             finish_log w @ [(b, True, ''no strategies resulted in an image'', None)] \<and>
          ((CreateApiFailed b \<and>
            finish_requests (snd (ResolveReference e r ref_opts w)) = finish_requests w) \<or>
           (\<not> CreateApiFailed b \<and>
            (\<exists>req. finish_requests (snd (ResolveReference e r ref_opts w)) =
                     finish_requests w @ [req] \<and>
               fb_Status req = ''failed'' \<and>
               fb_Logs req = ''no strategies resulted in an image''))))" .
next
  assume a: "IsAvailable (mode (dockerFactory r)) \<and>
    (\<forall>s \<in> set (builders e r). declines (dockerFactory r) (with_tag e opts) s)"
  from session_post_exhausted [OF BuildImage_post [OF conjunct1 [OF a]] conjunct2 [OF a]]
  show "fst (BuildImage e r opts w) =
       (None, Some (ErrorString
          ''app does not have a Dockerfile or buildpacks configured. See https://fly.io/docs/reference/configuration/#the-build-section'')) \<and>
     map fst (drop (length (run_log w)) (run_log (snd (BuildImage e r opts w)))) =
       map Name (builders e r) \<and>
     (\<exists>b. finish_log (snd (BuildImage e r opts w)) =
             finish_log w @ [(b, True, ''no strategies resulted in an image'', None)] \<and>
          ((CreateApiFailed b \<and>
            finish_requests (snd (BuildImage e r opts w)) = finish_requests w) \<or>
           (\<not> CreateApiFailed b \<and>
            (\<exists>req. finish_requests (snd (BuildImage e r opts w)) =
                     finish_requests w @ [req] \<and>
               fb_Status req = ''failed'' \<and>
               fb_Logs req = ''no strategies resulted in an image''))))" .
qed

lemma session_post_create_failed:
  assumes post: "session_post e r opts cands exhausted w out"
    and fails: "isl (ResolverCreateBuild e (last (create_requests (snd out))))"
  shows "finish_requests (snd out) = finish_requests w \<and>
     (\<exists>b args. finish_log (snd out) = finish_log w @ [(b, args)] \<and>
        CreateApiFailed b \<and> BuildId b = [])"
proof -
  from post obtain b ci where
    cr: "create_requests (snd out) = create_requests w @ [ci]"
    and fl: "finish_log (snd out) =
         finish_log w @ [(b, session_finish_args (first_response (dockerFactory r) opts cands))]"
    and cf: "CreateApiFailed b = isl (ResolverCreateBuild e ci)"
    and bid: "BuildId b = (case ResolverCreateBuild e ci of Inl err \<Rightarrow> [] | Inr resp_Id \<Rightarrow> resp_Id)"
    and fr: "finish_requests (snd out) =
         finish_requests w @
           (if CreateApiFailed b then []
            else [finish_input r b (session_finish_args (first_response (dockerFactory r) opts cands))])"
    unfolding session_post_def by blast
  from fails cr have f: "isl (ResolverCreateBuild e ci)" by simp
  then have b: "CreateApiFailed b" "BuildId b = []"
    by (simp_all add: cf bid isl_def split: sum.splits) auto
  from fr b(1) have "finish_requests (snd out) = finish_requests w" by simp
  moreover from fl b have "\<exists>b args. finish_log (snd out) = finish_log w @ [(b, args)] \<and>
        CreateApiFailed b \<and> BuildId b = []" by blast
  ultimately show ?thesis by (rule conjI)
qed

lemma session_post_same_result:
  assumes "session_post e r opts cands exhausted w out"
    and "session_post e' r opts cands exhausted w out'"
  shows "fst out = fst out' \<and> run_log (snd out) = run_log (snd out')"
  using assms unfolding session_post_def by auto

lemma with_tag_update [simp]: "with_tag (e\<lparr>ResolverCreateBuild := f\<rparr>) opts = with_tag e opts"
  by (simp add: with_tag_def)

lemma builders_update [simp]: "builders (e\<lparr>ResolverCreateBuild := f\<rparr>) r = builders e r"
  by (simp add: builders_def)

text \<open>
  C6. What a session returns, and the \<^verbatim>\<open>Run\<close> calls it makes, do not depend on the answer to
  the create mutation: with any other answer \<open>f\<close> of the service they are the same. When the
  create mutation is answered with an error, the session works on a record with an empty
  \<^verbatim>\<open>BuildId\<close> and \<^verbatim>\<open>CreateApiFailed\<close> set, \<^verbatim>\<open>finishBuild\<close> is still called once, and no finish
  mutation is sent.
\<close>

theorem telemetry_create_failure_does_not_abort:
  "fst (ResolveReference (e\<lparr>ResolverCreateBuild := f\<rparr>) r ref_opts w) =
     fst (ResolveReference e r ref_opts w) \<and>
   run_log (snd (ResolveReference (e\<lparr>ResolverCreateBuild := f\<rparr>) r ref_opts w)) =
     run_log (snd (ResolveReference e r ref_opts w)) \<and>
   (isl (ResolverCreateBuild e (last (create_requests (snd (ResolveReference e r ref_opts w))))) \<longrightarrow>
      finish_requests (snd (ResolveReference e r ref_opts w)) = finish_requests w \<and>
      (\<exists>b args. finish_log (snd (ResolveReference e r ref_opts w)) = finish_log w @ [(b, args)] \<and>
         CreateApiFailed b \<and> BuildId b = [])) \<and>
   fst (BuildImage (e\<lparr>ResolverCreateBuild := f\<rparr>) r opts w) = fst (BuildImage e r opts w) \<and>
   run_log (snd (BuildImage (e\<lparr>ResolverCreateBuild := f\<rparr>) r opts w)) =
     run_log (snd (BuildImage e r opts w)) \<and>
   (IsAvailable (mode (dockerFactory r)) \<and>
    isl (ResolverCreateBuild e (last (create_requests (snd (BuildImage e r opts w))))) \<longrightarrow>
      finish_requests (snd (BuildImage e r opts w)) = finish_requests w \<and>
      (\<exists>b args. finish_log (snd (BuildImage e r opts w)) = finish_log w @ [(b, args)] \<and>
         CreateApiFailed b \<and> BuildId b = []))"
proof -
  let ?e' = "e\<lparr>ResolverCreateBuild := f\<rparr>"
  have rr': "session_post ?e' r ref_opts [localImageResolver e, remoteImageResolver e]
     (ErrorString (''could not find image '' @ fmt_q e (ro_ImageRef ref_opts))) w
     (ResolveReference ?e' r ref_opts w)"
    using ResolveReference_post [of ?e' r ref_opts w] by simp
  note rr_same = session_post_same_result [OF rr' ResolveReference_post]
  have rr_fail: "finish_requests (snd (ResolveReference e r ref_opts w)) = finish_requests w \<and>
      (\<exists>b args. finish_log (snd (ResolveReference e r ref_opts w)) = finish_log w @ [(b, args)] \<and>
         CreateApiFailed b \<and> BuildId b = [])"
    if "isl (ResolverCreateBuild e (last (create_requests (snd (ResolveReference e r ref_opts w)))))"
    using session_post_create_failed [OF ResolveReference_post that] .
  have bi_same: "fst (BuildImage ?e' r opts w) = fst (BuildImage e r opts w) \<and>
     run_log (snd (BuildImage ?e' r opts w)) = run_log (snd (BuildImage e r opts w))"
  proof (cases "IsAvailable (mode (dockerFactory r))")
    case True
    have "session_post ?e' r (with_tag e opts) (builders e r)
       (ErrorString ''app does not have a Dockerfile or buildpacks configured. See https://fly.io/docs/reference/configuration/#the-build-section'') w
       (BuildImage ?e' r opts w)"
      using BuildImage_post [OF True, of ?e' opts w] by simp
    from session_post_same_result [OF this BuildImage_post [OF True]] show ?thesis .
  next
    case False
    then show ?thesis by (simp add: BuildImage_unavailable)
  qed
  have bi_fail: "finish_requests (snd (BuildImage e r opts w)) = finish_requests w \<and>
      (\<exists>b args. finish_log (snd (BuildImage e r opts w)) = finish_log w @ [(b, args)] \<and>
         CreateApiFailed b \<and> BuildId b = [])"
    if "IsAvailable (mode (dockerFactory r)) \<and>
        isl (ResolverCreateBuild e (last (create_requests (snd (BuildImage e r opts w)))))"
    using session_post_create_failed [OF BuildImage_post [OF conjunct1 [OF that]] conjunct2 [OF that]] .
  from rr_same rr_fail bi_same bi_fail show ?thesis by blast
qed

subsection \<open>The stop signal\<close>

lemma chan_neq [simp]: "(c \<noteq> Open) = (c = Closed)" "(c \<noteq> Closed) = (c = Open)"
  by (cases c; simp)+

lemma race_inv_start: "race_inv (racing_start n)"
  by (simp add: race_inv_def racing_start_def zero_Once_def waiting_def)

lemma race_inv_step:
  assumes "race_inv s"
  shows "race_inv (thread_step t s)"
proof (cases "t < length (pcs s)")
  case False
  with assms show ?thesis by (simp add: thread_step_def)
next
  case t: True
  show ?thesis
  proof (cases "once_m (once (sig s))")
    case None
    with assms t have w: "waiting (pcs s ! t)" by (simp add: race_inv_def)
    then consider "pcs s ! t = Entry" | "pcs s ! t = AtLock" | "pcs s ! t = Returned"
      by (auto simp: waiting_def)
    then show ?thesis
    proof cases
      case 1
      with assms t None show ?thesis
        by (auto simp: race_inv_def thread_step_def waiting_def nth_list_update
                 dest: set_update_subset_insert [THEN subsetD])
    next
      case 2
      with assms t None show ?thesis
        by (auto simp: race_inv_def thread_step_def waiting_def nth_list_update
                 dest: set_update_subset_insert [THEN subsetD])
    next
      case 3
      with assms t None show ?thesis by (simp add: thread_step_def)
    qed
  next
    case (Some h)
    show ?thesis
    proof (cases "t = h")
      case False
      with assms t Some have w: "waiting (pcs s ! t)" by (simp add: race_inv_def)
      then consider "pcs s ! t = Entry" | "pcs s ! t = AtLock" | "pcs s ! t = Returned"
        by (auto simp: waiting_def)
      then show ?thesis
      proof cases
        case 1
        with assms t Some False show ?thesis
          by (auto simp: race_inv_def thread_step_def waiting_def nth_list_update
                   dest: set_update_subset_insert [THEN subsetD])
      next
        case 2
        with assms t Some show ?thesis by (simp add: thread_step_def)
      next
        case 3
        with assms t Some show ?thesis by (simp add: thread_step_def)
      qed
    next
      case True
      with assms t Some show ?thesis
        by (cases "pcs s ! h")
           (auto simp: race_inv_def thread_step_def waiting_def nth_list_update close_chan_def
                 dest: set_update_subset_insert [THEN subsetD] split: chan.splits)
    qed
  qed
qed

lemma race_inv_run: "race_inv s \<Longrightarrow> race_inv (run_schedule sched s)"
  by (induction sched arbitrary: s) (simp_all add: race_inv_step)

lemma length_thread_step [simp]: "length (pcs (thread_step t s)) = length (pcs s)"
  by (simp add: thread_step_def split: pc.splits option.splits sum.splits)

lemma length_run_schedule [simp]: "length (pcs (run_schedule sched s)) = length (pcs s)"
  by (induction sched arbitrary: s) simp_all

lemma sum_remaining_update:
  assumes "t < length ps" "remaining p < remaining (ps ! t)"
  shows "sum_list (map remaining (ps[t := p])) < sum_list (map remaining ps)"
proof -
  have le: "remaining (ps ! t) \<le> sum_list (map remaining ps)"
    using assms(1) by (intro member_le_sum_list) (auto simp: in_set_conv_nth intro!: image_eqI [of _ _ "ps ! t"])
  have "sum_list (map remaining (ps[t := p])) =
        sum_list (map remaining ps) + remaining p - remaining (ps ! t)"
    using assms(1) by (simp add: map_update sum_list_update)
  with le assms(2) show ?thesis by simp
qed

lemma thread_step_pcs:
  "thread_step t s = s \<or>
   (t < length (pcs s) \<and>
    (\<exists>p. pcs (thread_step t s) = (pcs s)[t := p] \<and> remaining p < remaining (pcs s ! t)))"
  by (cases "pcs s ! t")
     (auto simp: thread_step_def close_chan_def split: option.splits chan.splits)

lemma thread_step_decreases:
  assumes "thread_step t s \<noteq> s"
  shows "sum_list (map remaining (pcs (thread_step t s))) < sum_list (map remaining (pcs s))"
proof -
  from thread_step_pcs [of t s] assms obtain p where
    "t < length (pcs s)" "pcs (thread_step t s) = (pcs s)[t := p]"
    "remaining p < remaining (pcs s ! t)" by blast
  then show ?thesis by (simp add: sum_remaining_update)
qed

lemma race_progress:
  assumes inv: "race_inv s" and i: "i < length (pcs s)" "pcs s ! i \<noteq> Returned"
  shows "\<exists>t < length (pcs s). thread_step t s \<noteq> s"
proof (cases "once_m (once (sig s))")
  case None
  with inv i have "waiting (pcs s ! i)" by (simp add: race_inv_def)
  with i(2) have "pcs s ! i = Entry \<or> pcs s ! i = AtLock" by (simp add: waiting_def)
  then have "pcs (thread_step i s) ! i \<noteq> pcs s ! i"
    using i(1) None by (auto simp: thread_step_def)
  then have "thread_step i s \<noteq> s" by auto
  with i(1) show ?thesis by blast
next
  case (Some h)
  with inv have h: "h < length (pcs s)"
    and hold: "holding (pcs s ! h) (Chan (sig s)) (once_done (once (sig s)))"
    by (simp_all add: race_inv_def)
  have "pcs (thread_step h s) ! h \<noteq> pcs s ! h"
    using h hold by (cases "pcs s ! h") (auto simp: thread_step_def close_chan_def)
  then have "thread_step h s \<noteq> s" by auto
  with h show ?thesis by blast
qed

lemma race_completes:
  assumes "race_inv s"
  shows "\<exists>sched. \<forall>i < length (pcs s). pcs (run_schedule sched s) ! i = Returned"
  using assms
proof (induction "sum_list (map remaining (pcs s))" arbitrary: s rule: less_induct)
  case less
  show ?case
  proof (cases "\<forall>i < length (pcs s). pcs s ! i = Returned")
    case True
    then have "\<forall>i < length (pcs s). pcs (run_schedule [] s) ! i = Returned" by simp
    then show ?thesis by blast
  next
    case False
    then obtain i where "i < length (pcs s)" "pcs s ! i \<noteq> Returned" by blast
    from race_progress [OF less.prems this] obtain t where t: "thread_step t s \<noteq> s" by blast
    from less.hyps [OF thread_step_decreases [OF t] race_inv_step [OF less.prems]]
    obtain sched where
      "\<forall>i < length (pcs (thread_step t s)). pcs (run_schedule sched (thread_step t s)) ! i = Returned"
      by blast
    then have "\<forall>i < length (pcs s). pcs (run_schedule (t # sched) s) ! i = Returned" by simp
    then show ?thesis by blast
  qed
qed

lemma race_inv_safe:
  assumes "race_inv s"
  shows "Panicked \<notin> set (pcs s)"
    and "closes s \<le> 1"
    and "(Chan (sig s) = Closed) = (closes s = 1)"
    and "Returned \<in> set (pcs s) \<Longrightarrow> closes s = 1 \<and> Chan (sig s) = Closed"
proof -
  show "Panicked \<notin> set (pcs s)"
  proof
    assume "Panicked \<in> set (pcs s)"
    then obtain i where i: "i < length (pcs s)" "pcs s ! i = Panicked"
      by (auto simp: in_set_conv_nth)
    show False
    proof (cases "once_m (once (sig s))")
      case None
      with assms i show False by (auto simp: race_inv_def waiting_def)
    next
      case (Some h)
      with assms i show False
        by (cases "i = h") (auto simp: race_inv_def waiting_def)
    qed
  qed
  show c: "(Chan (sig s) = Closed) = (closes s = 1)" using assms by (simp add: race_inv_def)
  from assms have "(Chan (sig s) = Open) = (closes s = 0)" by (simp add: race_inv_def)
  with c show "closes s \<le> 1" by (cases "Chan (sig s)") simp_all
  show "closes s = 1 \<and> Chan (sig s) = Closed" if "Returned \<in> set (pcs s)"
  proof -
    from assms that have d: "once_done (once (sig s))" by (simp add: race_inv_def)
    have "Chan (sig s) = Closed"
    proof (cases "once_m (once (sig s))")
      case None
      with assms d show ?thesis by (simp add: race_inv_def)
    next
      case (Some h)
      with assms have "holding (pcs s ! h) (Chan (sig s)) (once_done (once (sig s)))"
        by (simp add: race_inv_def)
      with d show ?thesis by (cases "pcs s ! h") simp_all
    qed
    with c show ?thesis by simp
  qed
qed

lemma run_schedule_append:
  "run_schedule (a @ b) s = run_schedule b (run_schedule a s)"
  by (induction a arbitrary: s) simp_all

lemma Stop_fresh:
  assumes "p < length (signals st)" "signals st ! p = \<lparr>Chan = Open, once = zero_Once\<rparr>"
  shows "Stop (Some p) st =
     Inr (st\<lparr>signals := (signals st)[p := \<lparr>Chan = Closed,
                                             once = \<lparr>once_done = True, once_m = None\<rparr>\<rparr>]\<rparr>)"
  using assms by (simp add: Stop_def once_Do_close_def close_chan_def zero_Once_def)

lemma Stop_stopped:
  assumes "p < length (signals st)" "once_done (once (signals st ! p))"
  shows "Stop (Some p) st = Inr st"
  using assms by (simp add: Stop_def once_Do_close_def)

lemma Stop_times_stopped:
  assumes "p < length (signals st)" "once_done (once (signals st ! p))"
  shows "Stop_times n (Some p) st = Inr st"
  by (induction n) (simp_all add: Stop_stopped [OF assms])

lemma Stop_times_fresh:
  assumes "p < length (signals st)" "signals st ! p = \<lparr>Chan = Open, once = zero_Once\<rparr>"
  shows "Stop_times (Suc n) (Some p) st =
     Inr (st\<lparr>signals := (signals st)[p := \<lparr>Chan = Closed,
                                             once = \<lparr>once_done = True, once_m = None\<rparr>\<rparr>]\<rparr>)"
proof -
  let ?st' = "st\<lparr>signals := (signals st)[p := \<lparr>Chan = Closed,
                                             once = \<lparr>once_done = True, once_m = None\<rparr>\<rparr>]\<rparr>"
  have "Stop_times n (Some p) ?st' = Inr ?st'"
    using assms(1) by (intro Stop_times_stopped) simp_all
  then show ?thesis by (simp add: Stop_fresh [OF assms])
qed

text \<open>
  C9. \<^verbatim>\<open>Stop\<close> called any number of times (at least once) on a handle as \<^verbatim>\<open>StartHeartbeat\<close>
  makes it, one call after the other, never panics and leaves the channel closed and the
  \<^verbatim>\<open>Once\<close> done: the first call closes the channel and the later ones change nothing. When
  \<open>k\<close> threads race through \<^verbatim>\<open>Stop\<close> on one such handle, then under every schedule no thread
  panics, the channel is closed at most once, it is closed exactly when one \<^verbatim>\<open>close\<close> has
  happened, and once any call has returned the channel has been closed exactly once;
  and every schedule can be continued so that all calls return.
\<close>

theorem stop_closes_channel_exactly_once:
  "(p < length (signals st) \<and> signals st ! p = \<lparr>Chan = Open, once = zero_Once\<rparr> \<longrightarrow>
      Stop_times (Suc n) (Some p) st =
        Inr (st\<lparr>signals := (signals st)[p := \<lparr>Chan = Closed,
                                                once = \<lparr>once_done = True, once_m = None\<rparr>\<rparr>]\<rparr>)) \<and>
   Panicked \<notin> set (pcs (run_schedule sched (racing_start k))) \<and>
   closes (run_schedule sched (racing_start k)) \<le> 1 \<and>
   (Chan (sig (run_schedule sched (racing_start k))) = Closed) =
     (closes (run_schedule sched (racing_start k)) = 1) \<and>
   (Returned \<in> set (pcs (run_schedule sched (racing_start k))) \<longrightarrow>
      closes (run_schedule sched (racing_start k)) = 1 \<and>
      Chan (sig (run_schedule sched (racing_start k))) = Closed) \<and>
   (\<exists>more. \<forall>i < k. pcs (run_schedule (sched @ more) (racing_start k)) ! i = Returned)"
proof -
  let ?s = "run_schedule sched (racing_start k)"
  have inv: "race_inv ?s" by (rule race_inv_run [OF race_inv_start])
  have len: "length (pcs ?s) = k" by (simp add: racing_start_def)
  from race_completes [OF inv] len
  have fin: "\<exists>more. \<forall>i < k. pcs (run_schedule (sched @ more) (racing_start k)) ! i = Returned"
    by (simp add: run_schedule_append)
  from Stop_times_fresh race_inv_safe [OF inv] fin show ?thesis by blast
qed

subsection \<open>Starting the heartbeat\<close>

lemma client_Do_keeps:
  "client_Do client req st = (res, st') \<Longrightarrow>
     st' = st\<lparr>sent := sent st @ [req]\<rparr> \<and> res = HTTPClient_Do client (length (sent st)) req"
  by (auto simp: client_Do_def)

lemma heartbeat_keeps:
  "heartbeat client req st = (res, st') \<Longrightarrow> st' = st\<lparr>sent := sent st @ [req]\<rparr>"
  by (auto simp: heartbeat_def client_Do_def split: sum.splits if_splits)

lemma heartbeat_not_found:
  assumes "HTTPClient_Do client (length (sent st)) req = Inr resp" "rs_StatusCode resp = 404"
  shows "\<exists>body. heartbeat client req st = (Some (HttpError 404 body), st\<lparr>sent := sent st @ [req]\<rparr>)"
  using assms by (cases "rs_Body resp") (simp_all add: heartbeat_def client_Do_def)

lemma StartHeartbeat_probe:
  assumes "remote (dockerFactory r)" "buildFn (dockerFactory r) = Inr client"
    "getHeartbeatUrl h client = (u, None)" "http_NewRequestWithContext h ''GET'' u = Inr req0"
    "heartbeat client
       (req0\<lparr>rq_BasicAuth := Some (appName (dockerFactory r), Tokens_Docker h),
             rq_UserAgent := ''flyctl/'' @ Version_String h\<rparr>) st = (Some err, st1)"
  shows "StartHeartbeat h r st =
     (case errors_As_httpError err of
        Some (StatusCode, Body) \<Rightarrow>
          if StatusCode = 404 then ((None, None), st1) else ((None, Some err), st1)
      | None \<Rightarrow> ((None, Some err), st1))"
  using assms by (simp add: StartHeartbeat_def Let_def http_StatusNotFound_def split: option.splits)

text \<open>
  C8. Let \<^verbatim>\<open>StartHeartbeat\<close> reach its first probe (the builder is remote, and the docker
  client, the heartbeat URL and the request were made without error). If the probe is
  answered with status 404, \<^verbatim>\<open>StartHeartbeat\<close> returns \<^verbatim>\<open>(nil, nil)\<close>; if the probe fails with
  any error that is not a \<^verbatim>\<open>*httpError\<close> with status 404, it returns \<^verbatim>\<open>(nil, err)\<close> with that
  error. In both cases one request was sent and no signal, timer or loop was made.
\<close>

theorem probe_not_found_is_clean_noop:
  "remote (dockerFactory r) \<and> buildFn (dockerFactory r) = Inr client \<and>
   getHeartbeatUrl h client = (u, None) \<and> http_NewRequestWithContext h ''GET'' u = Inr req0 \<longrightarrow>
     (let req = req0\<lparr>rq_BasicAuth := Some (appName (dockerFactory r), Tokens_Docker h),
                     rq_UserAgent := ''flyctl/'' @ Version_String h\<rparr>
      in (HTTPClient_Do client (length (sent st)) req = Inr resp \<and> rs_StatusCode resp = 404 \<longrightarrow>
            fst (StartHeartbeat h r st) = (None, None) \<and>
            loops (snd (StartHeartbeat h r st)) = loops st \<and>
            timers (snd (StartHeartbeat h r st)) = timers st \<and>
            signals (snd (StartHeartbeat h r st)) = signals st \<and>
            sent (snd (StartHeartbeat h r st)) = sent st @ [req]) \<and>
         (heartbeat client req st = (Some err, st1) \<and> (\<forall>body. err \<noteq> HttpError 404 body) \<longrightarrow>
            fst (StartHeartbeat h r st) = (None, Some err) \<and>
            loops (snd (StartHeartbeat h r st)) = loops st \<and>
            timers (snd (StartHeartbeat h r st)) = timers st \<and>
            signals (snd (StartHeartbeat h r st)) = signals st \<and>
            sent (snd (StartHeartbeat h r st)) = sent st @ [req]))"
proof (rule impI)
  assume a: "remote (dockerFactory r) \<and> buildFn (dockerFactory r) = Inr client \<and>
   getHeartbeatUrl h client = (u, None) \<and> http_NewRequestWithContext h ''GET'' u = Inr req0"
  define req where "req = req0\<lparr>rq_BasicAuth := Some (appName (dockerFactory r), Tokens_Docker h),
                     rq_UserAgent := ''flyctl/'' @ Version_String h\<rparr>"
  have probe: "StartHeartbeat h r st =
     (case errors_As_httpError e of
        Some (StatusCode, Body) \<Rightarrow>
          if StatusCode = 404 then ((None, None), s1) else ((None, Some e), s1)
      | None \<Rightarrow> ((None, Some e), s1))"
    if "heartbeat client req st = (Some e, s1)" for e s1
    using a that StartHeartbeat_probe [of r client h u req0 st e s1] by (simp add: req_def)
  have nf: "fst (StartHeartbeat h r st) = (None, None) \<and>
            loops (snd (StartHeartbeat h r st)) = loops st \<and>
            timers (snd (StartHeartbeat h r st)) = timers st \<and>
            signals (snd (StartHeartbeat h r st)) = signals st \<and>
            sent (snd (StartHeartbeat h r st)) = sent st @ [req]"
    if "HTTPClient_Do client (length (sent st)) req = Inr resp \<and> rs_StatusCode resp = 404"
  proof -
    from heartbeat_not_found [of client st req resp] that obtain body where
      hb: "heartbeat client req st = (Some (HttpError 404 body), st\<lparr>sent := sent st @ [req]\<rparr>)"
      by blast
    from probe [OF hb] show ?thesis by simp
  qed
  have other: "fst (StartHeartbeat h r st) = (None, Some err) \<and>
            loops (snd (StartHeartbeat h r st)) = loops st \<and>
            timers (snd (StartHeartbeat h r st)) = timers st \<and>
            signals (snd (StartHeartbeat h r st)) = signals st \<and>
            sent (snd (StartHeartbeat h r st)) = sent st @ [req]"
    if b: "heartbeat client req st = (Some err, st1) \<and> (\<forall>body. err \<noteq> HttpError 404 body)"
  proof -
    from b have hb: "heartbeat client req st = (Some err, st1)" by simp
    note st1 = heartbeat_keeps [OF hb]
    from b have "errors_As_httpError err = None \<or>
                 (\<exists>c body. errors_As_httpError err = Some (c, body) \<and> c \<noteq> 404)"
      by (cases err) auto
    with probe [OF hb] show ?thesis by (auto simp: st1)
  qed
  from nf other show "let req = req0\<lparr>rq_BasicAuth := Some (appName (dockerFactory r), Tokens_Docker h),
                     rq_UserAgent := ''flyctl/'' @ Version_String h\<rparr>
      in (HTTPClient_Do client (length (sent st)) req = Inr resp \<and> rs_StatusCode resp = 404 \<longrightarrow>
            fst (StartHeartbeat h r st) = (None, None) \<and>
            loops (snd (StartHeartbeat h r st)) = loops st \<and>
            timers (snd (StartHeartbeat h r st)) = timers st \<and>
            signals (snd (StartHeartbeat h r st)) = signals st \<and>
            sent (snd (StartHeartbeat h r st)) = sent st @ [req]) \<and>
         (heartbeat client req st = (Some err, st1) \<and> (\<forall>body. err \<noteq> HttpError 404 body) \<longrightarrow>
            fst (StartHeartbeat h r st) = (None, Some err) \<and>
            loops (snd (StartHeartbeat h r st)) = loops st \<and>
            timers (snd (StartHeartbeat h r st)) = timers st \<and>
            signals (snd (StartHeartbeat h r st)) = signals st \<and>
            sent (snd (StartHeartbeat h r st)) = sent st @ [req])"
    unfolding Let_def req_def [symmetric] by blast
qed

lemma StartHeartbeat_cases:
  "(fst (fst (StartHeartbeat h r st)) = None \<and>
    signals (snd (StartHeartbeat h r st)) = signals st \<and>
    timers (snd (StartHeartbeat h r st)) = timers st \<and>
    loops (snd (StartHeartbeat h r st)) = loops st) \<or>
   (\<exists>req. fst (StartHeartbeat h r st) = (Some (length (signals st)), None) \<and>
      signals (snd (StartHeartbeat h r st)) = signals st @ [\<lparr>Chan = Open, once = zero_Once\<rparr>] \<and>
      timers (snd (StartHeartbeat h r st)) = timers st @ [(time_Hour, length (signals st))] \<and>
      loops (snd (StartHeartbeat h r st)) = loops st @ [(length (signals st), 30 * time_Second, req)])"
  by (auto simp: StartHeartbeat_def Let_def client_Do_def
           dest!: heartbeat_keeps
           split: sum.splits option.splits prod.splits if_splits)

text \<open>
  C10. \<^verbatim>\<open>Stop\<close> on a nil handle returns at once and changes nothing. \<^verbatim>\<open>StartHeartbeat\<close>
  returns a nil handle whenever it starts no loop, in particular for a local builder and
  when the docker client cannot be made (and on a failed probe, C8). Hence \<^verbatim>\<open>Stop\<close> on the
  handle that \<^verbatim>\<open>StartHeartbeat\<close> returned, nil or not, does not panic.
\<close>

theorem stop_on_nil_handle_is_noop:
  "Stop None st = Inr st \<and>
   (loops (snd (StartHeartbeat h r st)) = loops st \<longrightarrow> fst (fst (StartHeartbeat h r st)) = None) \<and>
   (\<not> remote (dockerFactory r) \<longrightarrow> StartHeartbeat h r st = ((None, None), st)) \<and>
   (isl (buildFn (dockerFactory r)) \<longrightarrow> StartHeartbeat h r st = ((None, None), st)) \<and>
   (\<exists>st'. Stop (fst (fst (StartHeartbeat h r st))) (snd (StartHeartbeat h r st)) = Inr st')"
proof -
  have nil: "Stop None st' = Inr st'" for st' by (simp add: Stop_def)
  have not_remote: "\<not> remote (dockerFactory r) \<Longrightarrow> StartHeartbeat h r st = ((None, None), st)"
    by (simp add: StartHeartbeat_def)
  have no_client: "isl (buildFn (dockerFactory r)) \<Longrightarrow> StartHeartbeat h r st = ((None, None), st)"
    by (cases "buildFn (dockerFactory r)") (simp_all add: StartHeartbeat_def)
  have no_loop: "fst (fst (StartHeartbeat h r st)) = None"
    if "loops (snd (StartHeartbeat h r st)) = loops st"
    using StartHeartbeat_cases [of h r st] that by auto
  have ok: "\<exists>st'. Stop (fst (fst (StartHeartbeat h r st))) (snd (StartHeartbeat h r st)) = Inr st'"
    using StartHeartbeat_cases [of h r st]
  proof (elim disjE conjE exE)
    assume "fst (fst (StartHeartbeat h r st)) = None"
    then show ?thesis by (simp add: nil)
  next
    fix req
    assume a: "fst (StartHeartbeat h r st) = (Some (length (signals st)), None)"
      "signals (snd (StartHeartbeat h r st)) = signals st @ [\<lparr>Chan = Open, once = zero_Once\<rparr>]"
    have "Stop (Some (length (signals st))) (snd (StartHeartbeat h r st)) =
       Inr ((snd (StartHeartbeat h r st))\<lparr>signals := (signals (snd (StartHeartbeat h r st)))
          [length (signals st) := \<lparr>Chan = Closed, once = \<lparr>once_done = True, once_m = None\<rparr>\<rparr>]\<rparr>)"
      by (rule Stop_fresh) (simp_all add: a(2))
    with a(1) show ?thesis by simp
  qed
  from nil [of st] not_remote no_client no_loop ok show ?thesis by blast
qed

subsection \<open>The example sessions\<close>

lemmas ex_defs = ex_env_def ex_resolver_def ex_ref_opts_def ex_image_opts_def ex_world_def
  declining_def producing_def erring_def ex_image_def ex_env_declining_def ex_env_failing_def
  ex_env_no_telemetry_def

lemma ResolveReference_run_log:
  "run_log (snd (ResolveReference e r opts w)) =
     run_log w @ map (\<lambda>s. (Name s, Run s (dockerFactory r) opts))
       (tried (dockerFactory r) opts [localImageResolver e, remoteImageResolver e])"
  using ResolveReference_post [of e r opts w] unfolding session_post_def by blast

lemma BuildImage_run_log:
  "IsAvailable (mode (dockerFactory r)) \<Longrightarrow>
   run_log (snd (BuildImage e r opts w)) =
     run_log w @ map (\<lambda>s. (Name s, Run s (dockerFactory r) (with_tag e opts)))
       (tried (dockerFactory r) (with_tag e opts) (builders e r))"
  using BuildImage_post [of r e opts w] unfolding session_post_def by blast

theorem strategies_tried_in_declared_order_witness:
  "map fst (run_log (snd (ResolveReference ex_env ex_resolver ex_ref_opts ex_world))) =
     [''local'', ''remote''] \<and>
   map fst (run_log (snd (BuildImage ex_env ex_resolver ex_image_opts ex_world))) =
     [''buildpacks'', ''dockerfile''] \<and>
   tried (dockerFactory ex_resolver) ex_image_opts
     [buildpacksBuilder ex_env, dockerfileBuilder ex_env, builtinBuilder ex_env] =
     [buildpacksBuilder ex_env, dockerfileBuilder ex_env]"
  using strategies_tried_in_declared_order
    [where e = ex_env and r = ex_resolver and ref_opts = ex_ref_opts and w = ex_world
       and opts = ex_image_opts
       and ss = "[buildpacksBuilder ex_env, dockerfileBuilder ex_env, builtinBuilder ex_env]"
       and df = "dockerFactory ex_resolver" and o' = ex_image_opts]
  by (simp add: ex_defs tried_def declines_def with_tag_def)

theorem one_attempt_record_per_strategy_tried_witness:
  "StrategyResults (fst (last (finish_log (snd (ResolveReference ex_env ex_resolver ex_ref_opts ex_world))))) =
     [\<lparr>Strategy = ''local'', Result = ''failed'', Error = [], Note = ''no match''\<rparr>,
      \<lparr>Strategy = ''remote'', Result = ''success'', Error = [], Note = []\<rparr>] \<and>
   IsAvailable (mode (dockerFactory ex_resolver)) \<and>
   StrategyResults (fst (last (finish_log (snd (BuildImage ex_env ex_resolver ex_image_opts ex_world))))) =
     [\<lparr>Strategy = ''buildpacks'', Result = ''failed'', Error = [], Note = ''no match''\<rparr>,
      \<lparr>Strategy = ''dockerfile'', Result = ''failed'', Error = ''build failed'', Note = ''see log''\<rparr>]"
  using one_attempt_record_per_strategy_tried [of ex_env ex_resolver ex_ref_opts ex_world ex_image_opts]
  by (simp add: Let_def ex_defs tried_def declines_def with_tag_def attempt_record_def
        failed_attempt_def limitLogs_def logLimit_def)

theorem hard_failure_ends_the_session_witness:
  "(''remote'', Run (erring ''remote'') (dockerFactory ex_resolver) ex_ref_opts) \<in>
     set (drop (length (run_log ex_world))
            (run_log (snd (ResolveReference ex_env_failing ex_resolver ex_ref_opts ex_world)))) \<and>
   fst (ResolveReference ex_env_failing ex_resolver ex_ref_opts ex_world) =
     (None, Some (ErrorString ''build failed'')) \<and>
   (''dockerfile'', Run (erring ''dockerfile'') (dockerFactory ex_resolver) ex_image_opts) \<in>
     set (drop (length (run_log ex_world))
            (run_log (snd (BuildImage ex_env_failing ex_resolver ex_image_opts ex_world)))) \<and>
   fst (BuildImage ex_env_failing ex_resolver ex_image_opts ex_world) =
     (None, Some (ErrorString ''build failed''))"
proof -
  let ?res = "Run (erring ''remote'') (dockerFactory ex_resolver) ex_ref_opts"
  let ?res' = "Run (erring ''dockerfile'') (dockerFactory ex_resolver) ex_image_opts"
  have h1: "(''remote'', ?res) \<in>
     set (drop (length (run_log ex_world))
            (run_log (snd (ResolveReference ex_env_failing ex_resolver ex_ref_opts ex_world))))"
    by (simp add: ResolveReference_run_log) (simp add: ex_defs tried_def declines_def)
  have h2: "rr_err ?res = Some (ErrorString ''build failed'')"
    by (simp add: ex_defs)
  have av: "IsAvailable (mode (dockerFactory ex_resolver))" by (simp add: ex_defs)
  have h3: "(''dockerfile'', ?res') \<in>
     set (drop (length (run_log ex_world))
            (run_log (snd (BuildImage ex_env_failing ex_resolver ex_image_opts ex_world))))"
    by (simp add: BuildImage_run_log [OF av]) (simp add: ex_defs tried_def declines_def builders_def with_tag_def)
  have h4: "rr_err ?res' = Some (ErrorString ''build failed'')"
    by (simp add: ex_defs)
  from hard_failure_ends_the_session
    [of "''remote''" ?res ex_world ex_env_failing ex_resolver ex_ref_opts "ErrorString ''build failed''"
        "''dockerfile''" ?res' ex_image_opts "ErrorString ''build failed''"]
    h1 h2 h3 h4
  show ?thesis by blast
qed

theorem session_finalized_exactly_once_witness:
  "fst (fst (ResolveReference ex_env ex_resolver ex_ref_opts ex_world)) = Some ex_image \<and>
   (\<exists>b logs. finish_log (snd (ResolveReference ex_env ex_resolver ex_ref_opts ex_world)) =
       [(b, False, logs, Some ex_image)]) \<and>
   IsAvailable (mode (dockerFactory ex_resolver)) \<and>
   fst (fst (BuildImage ex_env ex_resolver ex_image_opts ex_world)) = None \<and>
   (\<exists>b logs. finish_log (snd (BuildImage ex_env ex_resolver ex_image_opts ex_world)) =
       [(b, True, logs, None)])"
proof -
  have av: "IsAvailable (mode (dockerFactory ex_resolver))" by (simp add: ex_defs)
  have fr: "first_response (dockerFactory ex_resolver) ex_ref_opts
              [localImageResolver ex_env, remoteImageResolver ex_env] =
            Some \<lparr>rr_img = Some ex_image, rr_note = [], rr_err = None,
                  rr_calls = [Call_BuildStart, Call_BuildFinish]\<rparr>"
    by (simp add: first_response_def declines_def ex_env_def declining_def producing_def)
  have fb: "first_response (dockerFactory ex_resolver) (with_tag ex_env ex_image_opts)
              (if UseNixpacks (mode (dockerFactory ex_resolver)) then [nixpacksBuilder ex_env]
               else [buildpacksBuilder ex_env, dockerfileBuilder ex_env, builtinBuilder ex_env]) =
            Some \<lparr>rr_img = None, rr_note = ''see log'',
                  rr_err = Some (ErrorString ''build failed''), rr_calls = []\<rparr>"
    by (simp add: first_response_def declines_def ex_env_def declining_def producing_def
          erring_def ex_resolver_def)
  have w0: "finish_log ex_world = []" by (simp add: ex_world_def)
  from session_finalized_exactly_once [of ex_env ex_resolver ex_ref_opts ex_world ex_image_opts] av
  show ?thesis
    unfolding fr fb w0 by auto
qed

theorem exhaustion_reported_witness:
  "declines (dockerFactory ex_resolver) ex_ref_opts (localImageResolver ex_env_declining) \<and>
   declines (dockerFactory ex_resolver) ex_ref_opts (remoteImageResolver ex_env_declining) \<and>
   fst (ResolveReference ex_env_declining ex_resolver ex_ref_opts ex_world) =
     (None, Some (ErrorString (''could not find image '' @ [CHR 0x22] @ ''nginx'' @ [CHR 0x22]))) \<and>
   IsAvailable (mode (dockerFactory ex_resolver)) \<and>
   list_all (declines (dockerFactory ex_resolver) (with_tag ex_env_declining ex_image_opts))
     (builders ex_env_declining ex_resolver) \<and>
   fst (BuildImage ex_env_declining ex_resolver ex_image_opts ex_world) =
     (None, Some (ErrorString
        ''app does not have a Dockerfile or buildpacks configured. See https://fly.io/docs/reference/configuration/#the-build-section''))"
proof -
  have h1: "\<forall>s \<in> set [localImageResolver ex_env_declining, remoteImageResolver ex_env_declining].
      declines (dockerFactory ex_resolver) ex_ref_opts s"
    by (simp add: declines_def ex_env_declining_def ex_env_def declining_def)
  have av: "IsAvailable (mode (dockerFactory ex_resolver))" by (simp add: ex_defs)
  have h2: "\<forall>s \<in> set (builders ex_env_declining ex_resolver).
      declines (dockerFactory ex_resolver) (with_tag ex_env_declining ex_image_opts) s"
    by (simp add: declines_def builders_def ex_env_declining_def ex_env_def declining_def
          ex_resolver_def)
  have q: "fmt_q ex_env_declining (ro_ImageRef ex_ref_opts) = [CHR 0x22] @ ''nginx'' @ [CHR 0x22]"
    by (simp add: ex_env_declining_def ex_env_def ex_ref_opts_def)
  from exhaustion_reported [of ex_env_declining ex_resolver ex_ref_opts ex_world ex_image_opts]
    h1 h2 av
  have "fst (ResolveReference ex_env_declining ex_resolver ex_ref_opts ex_world) =
     (None, Some (ErrorString (''could not find image '' @ [CHR 0x22] @ ''nginx'' @ [CHR 0x22])))"
    and "fst (BuildImage ex_env_declining ex_resolver ex_image_opts ex_world) =
     (None, Some (ErrorString
        ''app does not have a Dockerfile or buildpacks configured. See https://fly.io/docs/reference/configuration/#the-build-section''))"
    unfolding q by blast+
  with h1 h2 av show ?thesis by (simp add: list_all_iff)
qed

theorem exhausted_build_error_counterexample:
  "declines (dockerFactory ex_resolver) (with_tag ex_env_declining ex_image_opts)
     (buildpacksBuilder ex_env_declining) \<and>
   declines (dockerFactory ex_resolver) (with_tag ex_env_declining ex_image_opts)
     (dockerfileBuilder ex_env_declining) \<and>
   declines (dockerFactory ex_resolver) (with_tag ex_env_declining ex_image_opts)
     (builtinBuilder ex_env_declining) \<and>
   map (fst \<circ> snd \<circ> snd)
     (finish_log (snd (BuildImage ex_env_declining ex_resolver ex_image_opts ex_world))) =
     [''no strategies resulted in an image''] \<and>
   map_option ErrorText (snd (fst (BuildImage ex_env_declining ex_resolver ex_image_opts ex_world))) =
     Some ''app does not have a Dockerfile or buildpacks configured. See https://fly.io/docs/reference/configuration/#the-build-section'' \<and>
   \<not> (map_option ErrorText (snd (fst (BuildImage ex_env_declining ex_resolver ex_image_opts ex_world))) =
        Some ''no strategies resulted in an image'' \<or>
      map_option ErrorText (snd (fst (BuildImage ex_env_declining ex_resolver ex_image_opts ex_world))) =
        Some ''could not find image'')"
proof -
  have av: "IsAvailable (mode (dockerFactory ex_resolver))" by (simp add: ex_defs)
  have b: "builders ex_env_declining ex_resolver =
     [buildpacksBuilder ex_env_declining, dockerfileBuilder ex_env_declining,
      builtinBuilder ex_env_declining]"
    by (simp add: builders_def ex_resolver_def)
  have d: "declines (dockerFactory ex_resolver) (with_tag ex_env_declining ex_image_opts)
     (buildpacksBuilder ex_env_declining)"
     "declines (dockerFactory ex_resolver) (with_tag ex_env_declining ex_image_opts)
     (dockerfileBuilder ex_env_declining)"
     "declines (dockerFactory ex_resolver) (with_tag ex_env_declining ex_image_opts)
     (builtinBuilder ex_env_declining)"
    by (simp_all add: declines_def ex_env_declining_def ex_env_def declining_def)
  then have all: "\<forall>s \<in> set (builders ex_env_declining ex_resolver).
      declines (dockerFactory ex_resolver) (with_tag ex_env_declining ex_image_opts) s"
    unfolding b by simp
  from session_post_exhausted [OF BuildImage_post [OF av] all]
  obtain b' where
    ret: "fst (BuildImage ex_env_declining ex_resolver ex_image_opts ex_world) =
       (None, Some (ErrorString
          ''app does not have a Dockerfile or buildpacks configured. See https://fly.io/docs/reference/configuration/#the-build-section''))"
    and fl: "finish_log (snd (BuildImage ex_env_declining ex_resolver ex_image_opts ex_world)) =
       finish_log ex_world @ [(b', True, ''no strategies resulted in an image'', None)]"
    by blast
  have w0: "finish_log ex_world = []" by (simp add: ex_world_def)
  show ?thesis
    using d by (simp add: ret fl w0)
qed

theorem telemetry_create_failure_does_not_abort_witness:
  "fst (ResolveReference ex_env_no_telemetry ex_resolver ex_ref_opts ex_world) =
     fst (ResolveReference ex_env ex_resolver ex_ref_opts ex_world) \<and>
   isl (ResolverCreateBuild ex_env_no_telemetry
          (last (create_requests (snd (ResolveReference ex_env_no_telemetry ex_resolver ex_ref_opts ex_world))))) \<and>
   finish_requests (snd (ResolveReference ex_env_no_telemetry ex_resolver ex_ref_opts ex_world)) = [] \<and>
   IsAvailable (mode (dockerFactory ex_resolver)) \<and>
   fst (BuildImage ex_env_no_telemetry ex_resolver ex_image_opts ex_world) =
     fst (BuildImage ex_env ex_resolver ex_image_opts ex_world) \<and>
   finish_requests (snd (BuildImage ex_env_no_telemetry ex_resolver ex_image_opts ex_world)) = []"
proof -
  have av: "IsAvailable (mode (dockerFactory ex_resolver))" by (simp add: ex_defs)
  have fails: "isl (ResolverCreateBuild ex_env_no_telemetry i)" for i
    by (simp add: ex_env_no_telemetry_def)
  have e: "ex_env_no_telemetry\<lparr>ResolverCreateBuild := ResolverCreateBuild ex_env\<rparr> = ex_env"
    by (simp add: ex_env_no_telemetry_def)
  have w0: "finish_requests ex_world = []" by (simp add: ex_world_def)
  from telemetry_create_failure_does_not_abort
    [where e = ex_env_no_telemetry and f = "ResolverCreateBuild ex_env" and r = ex_resolver
       and ref_opts = ex_ref_opts and w = ex_world and opts = ex_image_opts]
    av fails
  show ?thesis unfolding e w0 by simp
qed

lemma ex_probe_setup:
  "remote (dockerFactory (ex_remote_resolver c)) \<and>
   buildFn (dockerFactory (ex_remote_resolver c)) = Inr (ex_client c) \<and>
   getHeartbeatUrl ex_heartbeat_env (ex_client c) =
     (''http://10.0.0.5:8080/flyio/v1/extendDeadline'', None) \<and>
   http_NewRequestWithContext ex_heartbeat_env ''GET''
     ''http://10.0.0.5:8080/flyio/v1/extendDeadline'' =
     Inr \<lparr>rq_Method = ''GET'', rq_URL = ''http://10.0.0.5:8080/flyio/v1/extendDeadline'',
          rq_BasicAuth = None, rq_UserAgent = []\<rparr>"
  by (simp add: ex_remote_resolver_def ex_client_def ex_heartbeat_env_def getHeartbeatUrl_def Let_def)

theorem probe_not_found_is_clean_noop_witness:
  "fst (StartHeartbeat ex_heartbeat_env (ex_remote_resolver 404) ex_heartbeat_world) = (None, None) \<and>
   loops (snd (StartHeartbeat ex_heartbeat_env (ex_remote_resolver 404) ex_heartbeat_world)) = [] \<and>
   fst (StartHeartbeat ex_heartbeat_env (ex_remote_resolver 500) ex_heartbeat_world) =
     (None, Some (HttpError 500 ''body'')) \<and>
   loops (snd (StartHeartbeat ex_heartbeat_env (ex_remote_resolver 500) ex_heartbeat_world)) = []"
proof -
  let ?req0 = "\<lparr>rq_Method = ''GET'', rq_URL = ''http://10.0.0.5:8080/flyio/v1/extendDeadline'',
          rq_BasicAuth = None, rq_UserAgent = []\<rparr>"
  have req: "?req0\<lparr>rq_BasicAuth := Some (appName (dockerFactory (ex_remote_resolver c)),
                                         Tokens_Docker ex_heartbeat_env),
                  rq_UserAgent := ''flyctl/'' @ Version_String ex_heartbeat_env\<rparr> =
             ex_heartbeat_request" for c
    by (simp add: ex_remote_resolver_def ex_heartbeat_env_def ex_heartbeat_request_def)
  have w0: "sent ex_heartbeat_world = []" "loops ex_heartbeat_world = []"
    by (simp_all add: ex_heartbeat_world_def)
  have nf: "HTTPClient_Do (ex_client 404) (length (sent ex_heartbeat_world)) ex_heartbeat_request =
              Inr \<lparr>rs_StatusCode = 404, rs_Status = [], rs_Body = Inr ''body''\<rparr> \<and>
            rs_StatusCode \<lparr>rs_StatusCode = 404, rs_Status = [], rs_Body = Inr ''body''\<rparr> = 404"
    by (simp add: ex_client_def w0)
  have other: "heartbeat (ex_client 500) ex_heartbeat_request ex_heartbeat_world =
                 (Some (HttpError 500 ''body''), ex_heartbeat_world\<lparr>sent := [ex_heartbeat_request]\<rparr>) \<and>
               (\<forall>body. HttpError 500 ''body'' \<noteq> HttpError 404 body)"
    by (simp add: heartbeat_def client_Do_def ex_client_def w0)
  from probe_not_found_is_clean_noop
    [where r = "ex_remote_resolver 404" and client = "ex_client 404" and h = ex_heartbeat_env
       and u = "''http://10.0.0.5:8080/flyio/v1/extendDeadline''" and ?req0.0 = ?req0
       and st = ex_heartbeat_world
       and resp = "\<lparr>rs_StatusCode = 404, rs_Status = [], rs_Body = Inr ''body''\<rparr>"]
    ex_probe_setup [of 404] nf
  have a: "fst (StartHeartbeat ex_heartbeat_env (ex_remote_resolver 404) ex_heartbeat_world) = (None, None) \<and>
   loops (snd (StartHeartbeat ex_heartbeat_env (ex_remote_resolver 404) ex_heartbeat_world)) = []"
    unfolding Let_def req w0 by blast
  from probe_not_found_is_clean_noop
    [where r = "ex_remote_resolver 500" and client = "ex_client 500" and h = ex_heartbeat_env
       and u = "''http://10.0.0.5:8080/flyio/v1/extendDeadline''" and ?req0.0 = ?req0
       and st = ex_heartbeat_world and err = "HttpError 500 ''body''"
       and ?st1.0 = "ex_heartbeat_world\<lparr>sent := [ex_heartbeat_request]\<rparr>"]
    ex_probe_setup [of 500] other
  have b: "fst (StartHeartbeat ex_heartbeat_env (ex_remote_resolver 500) ex_heartbeat_world) =
     (None, Some (HttpError 500 ''body'')) \<and>
   loops (snd (StartHeartbeat ex_heartbeat_env (ex_remote_resolver 500) ex_heartbeat_world)) = []"
    unfolding Let_def req w0 by blast
  from a b show ?thesis by blast
qed

theorem stop_closes_channel_exactly_once_witness:
  "Stop_times 3 (Some 0)
     \<lparr>sent = [], signals = [\<lparr>Chan = Open, once = zero_Once\<rparr>], timers = [], loops = []\<rparr> =
     Inr \<lparr>sent = [], signals = [\<lparr>Chan = Closed, once = \<lparr>once_done = True, once_m = None\<rparr>\<rparr>],
          timers = [], loops = []\<rparr> \<and>
   Returned \<in> set (pcs (run_schedule [0, 1, 0, 1, 0, 0, 0, 0, 1, 1, 1, 1] (racing_start 2))) \<and>
   closes (run_schedule [0, 1, 0, 1, 0, 0, 0, 0, 1, 1, 1, 1] (racing_start 2)) = 1 \<and>
   Chan (sig (run_schedule [0, 1, 0, 1, 0, 0, 0, 0, 1, 1, 1, 1] (racing_start 2))) = Closed"
proof -
  let ?st = "\<lparr>sent = [], signals = [\<lparr>Chan = Open, once = zero_Once\<rparr>], timers = [], loops = []\<rparr>"
  have h1: "0 < length (signals ?st) \<and> signals ?st ! 0 = \<lparr>Chan = Open, once = zero_Once\<rparr>"
    by simp
  have h2: "Returned \<in> set (pcs (run_schedule [0, 1, 0, 1, 0, 0, 0, 0, 1, 1, 1, 1] (racing_start 2)))"
    by code_simp
  from stop_closes_channel_exactly_once
    [where p = 0 and st = ?st and n = 2 and sched = "[0, 1, 0, 1, 0, 0, 0, 0, 1, 1, 1, 1]" and k = 2]
    h1 h2
  show ?thesis by (simp add: numeral_3_eq_3)
qed

theorem stop_on_nil_handle_is_noop_witness:
  "Stop None ex_heartbeat_world = Inr ex_heartbeat_world \<and>
   StartHeartbeat ex_heartbeat_env ex_resolver ex_heartbeat_world = ((None, None), ex_heartbeat_world) \<and>
   (\<exists>st'. Stop (fst (fst (StartHeartbeat ex_heartbeat_env (ex_remote_resolver 200) ex_heartbeat_world)))
             (snd (StartHeartbeat ex_heartbeat_env (ex_remote_resolver 200) ex_heartbeat_world)) = Inr st')"
proof -
  have local_builder: "\<not> remote (dockerFactory ex_resolver)" by (simp add: ex_resolver_def)
  from stop_on_nil_handle_is_noop [of ex_heartbeat_world ex_heartbeat_env ex_resolver] local_builder
  have a: "Stop None ex_heartbeat_world = Inr ex_heartbeat_world"
    "StartHeartbeat ex_heartbeat_env ex_resolver ex_heartbeat_world = ((None, None), ex_heartbeat_world)"
    by blast+
  from stop_on_nil_handle_is_noop [of ex_heartbeat_world ex_heartbeat_env "ex_remote_resolver 200"]
  have b: "\<exists>st'. Stop (fst (fst (StartHeartbeat ex_heartbeat_env (ex_remote_resolver 200) ex_heartbeat_world)))
             (snd (StartHeartbeat ex_heartbeat_env (ex_remote_resolver 200) ex_heartbeat_world)) = Inr st'"
    by blast
  from a b show ?thesis by blast
qed

end
